theory Spec2Isabelle
  imports Main "HOL-Library.AList"
begin

section \<open>FlowPrint: the hierarchical task store (src/store/useTaskStore.ts)\<close>

text \<open>
  The store is a zustand state container. Every action is a function from the current
  state to the next one; \<open>set(state => partial)\<close> merges the returned fields into the
  state, so an action is modelled as a function on the record \<open>TaskState\<close> that updates
  exactly the fields the callback returns.

  Modelling conventions:
  \<^item> A JavaScript object used as \<open>Record<string, T>\<close> is the association list of its own
    properties in insertion order, written with \<open>AList.update\<close> (which keeps the position
    of an existing key and appends a new one, as an object spread followed by a computed
    key does) and \<open>AList.delete\<close>. Reading \<open>obj[key]\<close> follows the prototype chain
    (\<open>property\<close>): a key that is not an own property but names a property of
    \<open>Object.prototype\<close> yields an inherited value.
  \<^item> The store of the model holds tasks. A call after which the task mapping holds an
    object that is not a task, or which throws, is reported as such (\<open>outcome\<close>).
  \<^item> \<open>string | null\<close> is \<open>string option\<close>; an optional field \<open>f?: T\<close> is \<open>T option\<close>.
  \<^item> The source tests a \<open>parentId\<close> for truthiness, so the empty string stands for "no
    parent" as \<open>null\<close> does; the parent of a task is its truthy \<open>parentId\<close> (\<open>truthy\<close>).
  \<^item> A \<open>Date\<close> is its time value in milliseconds since the epoch, or \<open>Invalid_Date\<close>
    (time value NaN).
  \<^item> The clock (\<open>new Date()\<close>, \<open>Date.now()\<close>), the id generator (\<open>uuidv4\<close>) and the
    platform's ISO-8601 conversions are parameters of the functions that use them.
\<close>

subsection \<open>src/types/index.ts\<close>

datatype TaskPriority = low | medium | high

datatype Date = Date int | Invalid_Date

text \<open>
  \<open>Task\<close> and \<open>ExportedTask\<close> share every field but the two timestamps
  (\<open>ExportedTask extends Omit<Task, 'createdAt' | 'completedAt'>\<close>): the record is
  polymorphic in the timestamp type.
\<close>

record 'd TaskOf =
  task_id :: string
  title :: string
  description :: "string option"
  completed :: bool
  parentId :: "string option"
  childrenIds :: "string list"
  createdAt :: 'd
  completedAt :: "'d option"
  estimatedMinutes :: "int option"
  tags :: "string list"
  priority :: TaskPriority

type_synonym Task = "Date TaskOf"
type_synonym ExportedTask = "string TaskOf"

record TaskColumn =
  column_id :: string
  taskIds :: "string list"
  parentTaskId :: "string option"
  level :: nat

datatype TaskTemplateTaskDefinition =
  TaskDef (def_title: string) (def_description: "string option")
    (def_estimatedMinutes: "int option") (def_priority: "TaskPriority option")
    (def_tags: "string list option") (def_children: "TaskTemplateTaskDefinition list option")

record TaskTemplate =
  template_id :: string
  template_name :: string
  template_tasks :: "TaskTemplateTaskDefinition list"

text \<open>
  \<open>Partial<Task>\<close>: every field may be absent (\<open>None\<close>). The two optional fields of
  \<open>Task\<close> may also be supplied as \<open>undefined\<close>, hence the nested option.
\<close>

record PartialTask =
  upd_id :: "string option"
  upd_title :: "string option"
  upd_description :: "string option option"
  upd_completed :: "bool option"
  upd_parentId :: "string option option"
  upd_childrenIds :: "string list option"
  upd_createdAt :: "Date option"
  upd_completedAt :: "Date option option"
  upd_estimatedMinutes :: "int option option"
  upd_tags :: "string list option"
  upd_priority :: "TaskPriority option"

subsection \<open>The store state\<close>

text \<open>
  \<open>taskTemplates\<close> is \<open>None\<close> when the field holds \<open>null\<close>, which \<open>importState\<close> can
  store (see there).
\<close>

record TaskState =
  tasks :: "(string \<times> Task) list"
  columns :: "TaskColumn list"
  rootTaskIds :: "string list"
  selectedTaskId :: "string option"
  editingTaskId :: "string option"
  taskTemplates :: "(string \<times> TaskTemplate) list option"

subsection \<open>JavaScript helpers\<close>

text \<open>
  Truthiness of a \<open>string | null\<close>: \<open>null\<close> and the empty string are falsy.
  \<open>truthy p\<close> is \<open>Some s\<close> when \<open>p\<close> is the truthy string \<open>s\<close>, and \<open>None\<close> when \<open>p\<close> is falsy.
\<close>

definition truthy :: "string option \<Rightarrow> string option" where
  "truthy p = (case p of None \<Rightarrow> None | Some s \<Rightarrow> if s = [] then None else Some s)"

text \<open>
  A JavaScript \<open>Set\<close> of strings is the list of its members in insertion order;
  \<open>Set_add\<close> is \<open>Set.prototype.add\<close>, \<open>new_Set xs\<close> is \<open>new Set(xs)\<close>, and
  \<open>Array.from\<close> of a set is that list.
\<close>

definition Set_add :: "string list \<Rightarrow> string \<Rightarrow> string list" where
  "Set_add members x = (if x \<in> set members then members else members @ [x])"

definition new_Set :: "string list \<Rightarrow> string list" where
  "new_Set xs = foldl Set_add [] xs"

text \<open>
  The properties of \<open>Object.prototype\<close> in the engines the application runs on. For a key
  that is not an own property of a plain object, \<open>obj[key]\<close> is \<open>undefined\<close> unless the key
  is one of these names; then it is an inherited value: a built-in function, or
  \<open>Object.prototype\<close> itself for \<open>__proto__\<close>. Such a value is truthy, has none of the
  fields of a task or a template (reading one gives \<open>undefined\<close>) and spreads to no
  property.
\<close>

definition Object_prototype_names :: "string list" where
  "Object_prototype_names =
    [''constructor'', ''__defineGetter__'', ''__defineSetter__'', ''hasOwnProperty'',
     ''__lookupGetter__'', ''__lookupSetter__'', ''isPrototypeOf'', ''propertyIsEnumerable'',
     ''toString'', ''valueOf'', ''__proto__'', ''toLocaleString'']"

datatype 'a property = Own 'a | Inherited | Absent

definition property :: "(string \<times> 'a) list \<Rightarrow> string \<Rightarrow> 'a property" where
  "property obj key =
    (case map_of obj key of
       Some v \<Rightarrow> Own v
     | None \<Rightarrow> if key \<in> set Object_prototype_names then Inherited else Absent)"

text \<open>
  What a call of an action does: \<open>Stored s\<close> when \<open>set\<close> stored the state \<open>s\<close>;
  \<open>Thrown e\<close> when the callback threw, which leaves the store as it was; and
  \<open>Stored_untyped key obj s\<close> when \<open>set\<close> stored \<open>s\<close> with, in addition, the object \<open>obj\<close>
  written to \<open>tasks[key]\<close>, where \<open>obj\<close> is not a task: it has only the fields that the
  partial \<open>obj\<close> holds. The model does not follow the store beyond such a write.
\<close>

datatype js_error = TypeError | RangeError

datatype 'a outcome = Stored 'a | Thrown js_error | Stored_untyped string PartialTask 'a

text \<open>The empty object \<open>{}\<close> as a partial task.\<close>

definition no_properties :: PartialTask where
  "no_properties =
    \<lparr>upd_id = None, upd_title = None, upd_description = None, upd_completed = None,
     upd_parentId = None, upd_childrenIds = None, upd_createdAt = None, upd_completedAt = None,
     upd_estimatedMinutes = None, upd_tags = None, upd_priority = None\<rparr>"

subsection \<open>addTask, updateTask, deleteTask, toggleTaskCompletion\<close>

text \<open>
  \<open>addTask\<close>. When \<open>task.parentId\<close> names no own key but an inherited property, \<open>parent\<close>
  is truthy, \<open>new Set(parent.childrenIds)\<close> is the empty set, and the code assigns
  \<open>{childrenIds: [task.id]}\<close> to \<open>newTasks[task.parentId]\<close> (for \<open>__proto__\<close> the assignment
  makes that object the prototype of the new mapping, where \<open>newTasks[task.parentId]\<close>
  then reads it).
\<close>

definition addTask :: "Task \<Rightarrow> TaskState \<Rightarrow> TaskState outcome" where
  "addTask task state =
    (let newTasks = AList.update (task_id task) task (tasks state);
         newRootTaskIds = rootTaskIds state
     in case truthy (parentId task) of
          None \<Rightarrow>
            Stored (state\<lparr>tasks := newTasks,
                  rootTaskIds := (if task_id task \<in> set newRootTaskIds then newRootTaskIds
                                  else newRootTaskIds @ [task_id task])\<rparr>)
        | Some pid \<Rightarrow>
            (case property newTasks pid of
               Own parent \<Rightarrow>
                 Stored (state\<lparr>tasks := AList.update pid
                            (parent\<lparr>childrenIds := Set_add (new_Set (childrenIds parent)) (task_id task)\<rparr>)
                            newTasks,
                       rootTaskIds := newRootTaskIds\<rparr>)
             | Inherited \<Rightarrow>
                 Stored_untyped pid
                   (no_properties\<lparr>upd_childrenIds := Some (Set_add (new_Set []) (task_id task))\<rparr>)
                   (state\<lparr>tasks := newTasks, rootTaskIds := newRootTaskIds\<rparr>)
             | Absent \<Rightarrow> Stored (state\<lparr>tasks := newTasks, rootTaskIds := newRootTaskIds\<rparr>)))"

text \<open>
  \<open>const { createdAt, ...restOfProperties } = updatedProperties\<close> removes the key
  \<open>createdAt\<close> from the partial; \<open>{ ...taskToUpdate, ...restOfProperties }\<close> lets every
  key that is present in the partial override the task's field. When \<open>taskId\<close> names an
  inherited property, \<open>taskToUpdate\<close> is truthy and spreads to nothing: the code stores the
  rest of the partial under \<open>taskId\<close>.
\<close>

definition restOfProperties :: "PartialTask \<Rightarrow> PartialTask" where
  "restOfProperties updatedProperties = updatedProperties\<lparr>upd_createdAt := None\<rparr>"

definition spread :: "Task \<Rightarrow> PartialTask \<Rightarrow> Task" where
  "spread t p =
    \<lparr>task_id = (case upd_id p of None \<Rightarrow> task_id t | Some v \<Rightarrow> v),
     title = (case upd_title p of None \<Rightarrow> title t | Some v \<Rightarrow> v),
     description = (case upd_description p of None \<Rightarrow> description t | Some v \<Rightarrow> v),
     completed = (case upd_completed p of None \<Rightarrow> completed t | Some v \<Rightarrow> v),
     parentId = (case upd_parentId p of None \<Rightarrow> parentId t | Some v \<Rightarrow> v),
     childrenIds = (case upd_childrenIds p of None \<Rightarrow> childrenIds t | Some v \<Rightarrow> v),
     createdAt = (case upd_createdAt p of None \<Rightarrow> createdAt t | Some v \<Rightarrow> v),
     completedAt = (case upd_completedAt p of None \<Rightarrow> completedAt t | Some v \<Rightarrow> v),
     estimatedMinutes = (case upd_estimatedMinutes p of None \<Rightarrow> estimatedMinutes t | Some v \<Rightarrow> v),
     tags = (case upd_tags p of None \<Rightarrow> tags t | Some v \<Rightarrow> v),
     priority = (case upd_priority p of None \<Rightarrow> priority t | Some v \<Rightarrow> v)\<rparr>"

definition updateTask :: "string \<Rightarrow> PartialTask \<Rightarrow> TaskState \<Rightarrow> TaskState outcome" where
  "updateTask taskId updatedProperties state =
    (case property (tasks state) taskId of
       Absent \<Rightarrow> Stored state
     | Own taskToUpdate \<Rightarrow>
         Stored (state\<lparr>tasks :=
           AList.update taskId (spread taskToUpdate (restOfProperties updatedProperties))
             (tasks state)\<rparr>)
     | Inherited \<Rightarrow> Stored_untyped taskId (restOfProperties updatedProperties) state)"

text \<open>
  \<open>deleteTask\<close>. When \<open>taskId\<close> names an inherited property, \<open>taskToDelete\<close> is truthy, the
  \<open>delete\<close> removes nothing, \<open>taskToDelete.parentId\<close> is \<open>undefined\<close>, and the code goes on to
  filter \<open>rootTaskIds\<close> and to clear the selection. When the \<open>parentId\<close> of the deleted task
  names an inherited property, \<open>parent\<close> is truthy and \<open>parent.childrenIds.filter\<close> throws a
  TypeError.
\<close>

definition after_delete :: "string \<Rightarrow> (string \<times> Task) list \<Rightarrow> TaskState \<Rightarrow> TaskState" where
  "after_delete taskId newTasks state =
    (let newRootTaskIds = filter (\<lambda>i. i \<noteq> taskId) (rootTaskIds state);
         newSelectedTaskId = (if selectedTaskId state = Some taskId then None else selectedTaskId state);
         newEditingTaskId = (if editingTaskId state = Some taskId then None else editingTaskId state)
     in state\<lparr>tasks := newTasks, rootTaskIds := newRootTaskIds,
              selectedTaskId := newSelectedTaskId, editingTaskId := newEditingTaskId\<rparr>)"

definition deleteTask :: "string \<Rightarrow> TaskState \<Rightarrow> TaskState outcome" where
  "deleteTask taskId state =
    (case property (tasks state) taskId of
       Absent \<Rightarrow> Stored state
     | Inherited \<Rightarrow> Stored (after_delete taskId (tasks state) state)
     | Own taskToDelete \<Rightarrow>
         (let newTasks = AList.delete taskId (tasks state)
          in case truthy (parentId taskToDelete) of
               None \<Rightarrow> Stored (after_delete taskId newTasks state)
             | Some pid \<Rightarrow>
                 (case property newTasks pid of
                    Own parent \<Rightarrow>
                      Stored (after_delete taskId
                        (AList.update pid
                          (parent\<lparr>childrenIds := filter (\<lambda>i. i \<noteq> taskId) (childrenIds parent)\<rparr>)
                          newTasks)
                        state)
                  | Inherited \<Rightarrow> Thrown TypeError
                  | Absent \<Rightarrow> Stored (after_delete taskId newTasks state))))"

text \<open>
  \<open>now\<close> is the time value of the \<open>new Date()\<close> evaluated by the action. When \<open>taskId\<close>
  names an inherited property, \<open>task\<close> is truthy, \<open>task.completed\<close> is \<open>undefined\<close>, and the
  code stores \<open>{completed: true, completedAt: new Date()}\<close> under \<open>taskId\<close>.
\<close>

definition toggleTaskCompletion :: "int \<Rightarrow> string \<Rightarrow> TaskState \<Rightarrow> TaskState outcome" where
  "toggleTaskCompletion now taskId state =
    (case property (tasks state) taskId of
       Absent \<Rightarrow> Stored state
     | Own task \<Rightarrow>
         Stored (state\<lparr>tasks := AList.update taskId
                  (task\<lparr>completed := \<not> completed task,
                        completedAt := (if \<not> completed task then Some (Date now) else None)\<rparr>)
                  (tasks state)\<rparr>)
     | Inherited \<Rightarrow>
         Stored_untyped taskId
           (no_properties\<lparr>upd_completed := Some True, upd_completedAt := Some (Some (Date now))\<rparr>)
           state)"

subsection \<open>setActiveColumns\<close>

text \<open>
  A column id is a template literal holding \<open>Date.now()\<close>. \<open>String_of_int\<close> is the decimal
  rendering JavaScript gives an integral number; \<open>decimal\<close> renders a number that is not
  negative.
\<close>

definition digit_char :: "int \<Rightarrow> char" where
  "digit_char d = ''0123456789'' ! nat d"

function decimal :: "int \<Rightarrow> string" where
  "decimal n = (if n < 10 then [digit_char n] else decimal (n div 10) @ [digit_char (n mod 10)])"
  by pat_completeness auto
termination
  by (relation "measure nat") auto

declare decimal.simps [simp del]

definition String_of_int :: "int \<Rightarrow> string" where
  "String_of_int i = (if i < 0 then CHR ''-'' # decimal (- i) else decimal i)"

definition String_of_nat :: "nat \<Rightarrow> string" where
  "String_of_nat n = decimal (int n)"

text \<open>
  \<open>!!state.tasks[id]\<close>: true when the id is a key of the task mapping, and also when it
  names an inherited property.
\<close>

definition task_exists :: "(string \<times> Task) list \<Rightarrow> string \<Rightarrow> bool" where
  "task_exists ts i = (property ts i \<noteq> Absent)"

text \<open>
  The \<open>for ... of\<close> loop over the hierarchy. \<open>Date_now\<close> is the clock: \<open>Date_now k\<close> is the
  reading of the \<open>k\<close>-th call of \<open>Date.now()\<close> made by the action (the root column makes
  call 0). \<open>calls\<close> counts the calls made so far, \<open>lvl\<close> is the loop's running counter
  \<open>level\<close>. An inherited value has no \<open>childrenIds\<close>, so it gives no column.
\<close>

fun hierarchy_loop ::
  "(nat \<Rightarrow> int) \<Rightarrow> (string \<times> Task) list \<Rightarrow> string list \<Rightarrow> TaskColumn list \<Rightarrow> nat \<Rightarrow> nat
    \<Rightarrow> TaskColumn list" where
  "hierarchy_loop Date_now ts [] newColumns lvl calls = newColumns"
| "hierarchy_loop Date_now ts (taskId # rest) newColumns lvl calls =
    (case property ts taskId of
       Own task \<Rightarrow>
         if length (childrenIds task) > 0 then
           hierarchy_loop Date_now ts rest
             (newColumns @
               [\<lparr>column_id = ''column-'' @ taskId @ ''-'' @ String_of_int (Date_now calls),
                 taskIds = filter (task_exists ts) (childrenIds task),
                 parentTaskId = Some taskId,
                 level = lvl\<rparr>])
             (lvl + 1) (calls + 1)
         else hierarchy_loop Date_now ts rest newColumns lvl calls
     | Inherited \<Rightarrow> hierarchy_loop Date_now ts rest newColumns lvl calls
     | Absent \<Rightarrow> hierarchy_loop Date_now ts rest newColumns lvl calls)"

definition setActiveColumns :: "(nat \<Rightarrow> int) \<Rightarrow> string list \<Rightarrow> TaskState \<Rightarrow> TaskState" where
  "setActiveColumns Date_now selectedTaskIdsHierarchy state =
    (let newColumns =
           [\<lparr>column_id = ''column-root-'' @ String_of_int (Date_now 0),
             taskIds = filter (task_exists (tasks state)) (rootTaskIds state),
             parentTaskId = None,
             level = 0\<rparr>];
         newColumns' = hierarchy_loop Date_now (tasks state) selectedTaskIdsHierarchy newColumns 1 1;
         finalColumns = take 5 newColumns'
     in state\<lparr>columns := finalColumns\<rparr>)"

text \<open>
  The column list as the specification words it (section 4.2), without the synthetic ids:
  each column is the triple (\<open>taskIds\<close>, \<open>parentTaskId\<close>, \<open>level\<close>). A task exists when its
  id is present in the mapping (\<open>task_present\<close>).
\<close>

definition column_view :: "TaskColumn \<Rightarrow> string list \<times> string option \<times> nat" where
  "column_view c = (taskIds c, parentTaskId c, level c)"

definition task_present :: "(string \<times> Task) list \<Rightarrow> string \<Rightarrow> bool" where
  "task_present ts i = (map_of ts i \<noteq> None)"

definition has_children :: "(string \<times> Task) list \<Rightarrow> string \<Rightarrow> bool" where
  "has_children ts i = (case map_of ts i of None \<Rightarrow> False | Some t \<Rightarrow> childrenIds t \<noteq> [])"

definition children_of :: "(string \<times> Task) list \<Rightarrow> string \<Rightarrow> string list" where
  "children_of ts i = (case map_of ts i of None \<Rightarrow> [] | Some t \<Rightarrow> childrenIds t)"

definition spec_columns ::
  "(string \<times> Task) list \<Rightarrow> string list \<Rightarrow> string list \<Rightarrow> (string list \<times> string option \<times> nat) list" where
  "spec_columns ts roots h =
    take 5
      ((filter (task_present ts) roots, None, 0) #
       map (\<lambda>(k, i). (filter (task_present ts) (children_of ts i), Some i, k))
         (enumerate 1 (filter (has_children ts) h)))"

subsection \<open>Statistics: getTasksCompletedThisWeekCount\<close>

text \<open>
  The local time zone is the platform's. Its two conversions are parameters, as in
  ECMAScript: \<open>LocalTime t\<close> is the local time value of the instant \<open>t\<close>, and \<open>UTC l\<close> is
  the instant the platform assigns to the local time value \<open>l\<close>. Where the zone's offset
  changes (daylight saving), a local time may exist twice or not at all, and \<open>UTC\<close> picks
  an instant as the platform does. Time values stay in the range of valid dates.
  \<open>Day\<close>, \<open>TimeWithinDay\<close> and \<open>getDay\<close> (\<open>WeekDay(LocalTime(t))\<close>, 0 for Sunday) are
  ECMAScript's.
\<close>

definition msPerDay :: int where
  "msPerDay = 86400000"

definition Day :: "int \<Rightarrow> int" where
  "Day t = t div msPerDay"

definition TimeWithinDay :: "int \<Rightarrow> int" where
  "TimeWithinDay t = t mod msPerDay"

definition getDay :: "(int \<Rightarrow> int) \<Rightarrow> int \<Rightarrow> int" where
  "getDay LocalTime t = (Day (LocalTime t) + 4) mod 7"

text \<open>
  \<open>d.setDate(d.getDate() - k)\<close>: with \<open>l\<close> the local time of \<open>d\<close>, the new local time is
  \<open>MakeDate(MakeDay(YearFromTime(l), MonthFromTime(l), DateFromTime(l) - k),
  TimeWithinDay(l))\<close>, and \<open>MakeDay\<close> of a day of the month counted from the first of the
  month of \<open>l\<close> is the day number \<open>Day(l) - k\<close> (a day of the month below 1 rolls into the
  months before). The new time value is \<open>UTC\<close> of it.
  \<open>d.setHours(0, 0, 0, 0)\<close>: the new local time is \<open>MakeDate(Day(l), 0)\<close>, and the new time
  value is \<open>UTC\<close> of it.
\<close>

definition setDate_back :: "(int \<Rightarrow> int) \<Rightarrow> (int \<Rightarrow> int) \<Rightarrow> int \<Rightarrow> int \<Rightarrow> int" where
  "setDate_back LocalTime UTC t k =
    (let l = LocalTime t;
         newDate = (Day l - k) * msPerDay + TimeWithinDay l
     in UTC newDate)"

definition setHours_0 :: "(int \<Rightarrow> int) \<Rightarrow> (int \<Rightarrow> int) \<Rightarrow> int \<Rightarrow> int" where
  "setHours_0 LocalTime UTC t =
    (let l = LocalTime t;
         newDate = Day l * msPerDay
     in UTC newDate)"

text \<open>\<open>today === 0 ? 6 : today - 1\<close>, the number of days since Monday.\<close>

definition days_since_monday :: "int \<Rightarrow> int" where
  "days_since_monday today = (if today = 0 then 6 else today - 1)"

definition weekStart :: "(int \<Rightarrow> int) \<Rightarrow> (int \<Rightarrow> int) \<Rightarrow> int \<Rightarrow> int" where
  "weekStart LocalTime UTC now =
    (let today = getDay LocalTime now
     in setHours_0 LocalTime UTC (setDate_back LocalTime UTC now (days_since_monday today)))"

text \<open>
  The week start as the specification words it (section 4.5): the most recent Monday 00:00,
  \<open>(dayOfWeek + 6) mod 7\<close> days before the current day. \<open>monday_midnight\<close> is its local
  time value.
\<close>

definition monday_midnight :: "(int \<Rightarrow> int) \<Rightarrow> int \<Rightarrow> int" where
  "monday_midnight LocalTime now =
    (Day (LocalTime now) - (getDay LocalTime now + 6) mod 7) * msPerDay"

text \<open>
  \<open>task.completedAt && new Date(task.completedAt) >= weekStart\<close>: \<open>null\<close> is falsy, and a
  comparison with an invalid date (NaN) is false.
\<close>

definition completed_since :: "int \<Rightarrow> Task \<Rightarrow> bool" where
  "completed_since start task =
    (completed task \<and>
     (case completedAt task of
        None \<Rightarrow> False
      | Some Invalid_Date \<Rightarrow> False
      | Some (Date c) \<Rightarrow> c \<ge> start))"

definition getTasksCompletedThisWeekCount ::
  "(int \<Rightarrow> int) \<Rightarrow> (int \<Rightarrow> int) \<Rightarrow> int \<Rightarrow> TaskState \<Rightarrow> nat" where
  "getTasksCompletedThisWeekCount LocalTime UTC now state =
    length (filter (completed_since (weekStart LocalTime UTC now)) (map snd (tasks state)))"

text \<open>
  Two zones. \<open>fixed_LocalTime\<close> and \<open>fixed_UTC\<close> are a zone with the constant offset \<open>tz\<close>
  (milliseconds east of UTC). \<open>berlin_LocalTime\<close> and \<open>berlin_UTC\<close> are the zone of Berlin
  around the end of daylight saving on 29 October 2023, 01:00 UTC (1698541200000), when
  the offset falls from two hours to one; a local time that exists twice is taken with the
  offset before the change, as ECMAScript prescribes.
\<close>

definition fixed_LocalTime :: "int \<Rightarrow> int \<Rightarrow> int" where
  "fixed_LocalTime tz t = t + tz"

definition fixed_UTC :: "int \<Rightarrow> int \<Rightarrow> int" where
  "fixed_UTC tz l = l - tz"

definition berlin_LocalTime :: "int \<Rightarrow> int" where
  "berlin_LocalTime t = (if t < 1698541200000 then t + 7200000 else t + 3600000)"

definition berlin_UTC :: "int \<Rightarrow> int" where
  "berlin_UTC l = (if l < 1698541200000 + 7200000 then l - 7200000 else l - 3600000)"

subsection \<open>Export (handleExport) and importState\<close>

text \<open>
  \<open>importState\<close> receives the result of \<open>JSON.parse\<close> cast to \<open>ExportedData\<close>, and tests
  the shape of its fields at run time. A field of the document is therefore a value of one
  of five shapes: absent (\<open>undefined\<close>), \<open>null\<close>, a primitive (string, number, boolean), an
  array, or an object with its entries. An entry of \<open>data.tasks\<close> is an \<open>ExportedTask\<close> or
  \<open>null\<close> (\<open>None\<close>); entries of other kinds are excluded by the type.
\<close>

datatype 'a js_field = JS_undefined | JS_null | JS_primitive | JS_array "'a list" | JS_object "(string \<times> 'a) list"

record ExportedData =
  data_version :: "int option"
  data_tasks :: "ExportedTask option js_field"
  data_rootTaskIds :: "string js_field"
  data_taskTemplates :: "TaskTemplate js_field"

definition CURRENT_DATA_VERSION :: int where
  "CURRENT_DATA_VERSION = 1"

text \<open>\<open>typeof v === 'object'\<close> holds for \<open>null\<close>, for an array and for an object.\<close>

definition typeof_object :: "'a js_field \<Rightarrow> bool" where
  "typeof_object v =
    (case v of
       JS_undefined \<Rightarrow> False
     | JS_null \<Rightarrow> True
     | JS_primitive \<Rightarrow> False
     | JS_array xs \<Rightarrow> True
     | JS_object m \<Rightarrow> True)"

definition Array_isArray :: "'a js_field \<Rightarrow> bool" where
  "Array_isArray v = (case v of JS_array xs \<Rightarrow> True | _ \<Rightarrow> False)"

text \<open>The own enumerable properties of an array are its indices, as decimal strings.\<close>

definition array_entries :: "'a list \<Rightarrow> (string \<times> 'a) list" where
  "array_entries xs = zip (map String_of_nat [0..<length xs]) xs"

text \<open>
  \<open>Object.entries\<close> throws a TypeError on \<open>undefined\<close> and \<open>null\<close>. \<open>importState\<close> applies it
  only to a value whose \<open>typeof\<close> is \<open>'object'\<close>; a number or boolean has no entries.
\<close>

definition Object_entries :: "'a js_field \<Rightarrow> js_error + (string \<times> 'a) list" where
  "Object_entries v =
    (case v of
       JS_undefined \<Rightarrow> Inl TypeError
     | JS_null \<Rightarrow> Inl TypeError
     | JS_primitive \<Rightarrow> Inr []
     | JS_array xs \<Rightarrow> Inr (array_entries xs)
     | JS_object m \<Rightarrow> Inr m)"

text \<open>
  \<open>Object.fromEntries\<close> builds an object: a later entry with the same key overwrites the
  earlier one.
\<close>

definition Object_fromEntries :: "(string \<times> 'a) list \<Rightarrow> (string \<times> 'a) list" where
  "Object_fromEntries es = foldl (\<lambda>obj (k, v). AList.update k v obj) [] es"

text \<open>
  The platform's conversions are parameters: \<open>toISOString t\<close> is the ISO-8601 text of the
  valid time value \<open>t\<close> (on an invalid date the method throws a RangeError), and
  \<open>Date_parse s\<close> is the time value \<open>new Date(s)\<close> holds, \<open>None\<close> when the date is invalid.
\<close>

definition Date_toISOString :: "(int \<Rightarrow> string) \<Rightarrow> Date \<Rightarrow> js_error + string" where
  "Date_toISOString toISOString d =
    (case d of Date t \<Rightarrow> Inr (toISOString t) | Invalid_Date \<Rightarrow> Inl RangeError)"

definition new_Date :: "(string \<Rightarrow> int option) \<Rightarrow> string \<Rightarrow> Date" where
  "new_Date Date_parse s = (case Date_parse s of Some t \<Rightarrow> Date t | None \<Rightarrow> Invalid_Date)"

text \<open>
  One entry of \<open>handleExport\<close>'s map: \<open>{...task, createdAt: task.createdAt.toISOString(),
  completedAt: task.completedAt ? task.completedAt.toISOString() : null}\<close>. A \<open>Date\<close> object
  is truthy.
\<close>

definition export_task :: "(int \<Rightarrow> string) \<Rightarrow> Task \<Rightarrow> js_error + ExportedTask" where
  "export_task toISOString task =
    (case Date_toISOString toISOString (createdAt task) of
       Inl e \<Rightarrow> Inl e
     | Inr created \<Rightarrow>
         (case (case completedAt task of
                  None \<Rightarrow> Inr None
                | Some d \<Rightarrow> map_sum (\<lambda>e. e) Some (Date_toISOString toISOString d)) of
            Inl e \<Rightarrow> Inl e
          | Inr done_at \<Rightarrow>
              Inr \<lparr>task_id = task_id task, title = title task, description = description task,
                   completed = completed task, parentId = parentId task,
                   childrenIds = childrenIds task, createdAt = created, completedAt = done_at,
                   estimatedMinutes = estimatedMinutes task, tags = tags task,
                   priority = priority task\<rparr>))"

text \<open>Mapping a function that may throw over the entries: the first exception ends the map.\<close>

fun map_entries :: "('a \<Rightarrow> js_error + 'b) \<Rightarrow> (string \<times> 'a) list \<Rightarrow> js_error + (string \<times> 'b) list" where
  "map_entries f [] = Inr []"
| "map_entries f ((k, v) # es) =
    (case f v of
       Inl e \<Rightarrow> Inl e
     | Inr v' \<Rightarrow> (case map_entries f es of Inl e \<Rightarrow> Inl e | Inr es' \<Rightarrow> Inr ((k, v') # es')))"

text \<open>
  The document \<open>handleExport\<close> builds (\<open>dataToExport\<close>), before \<open>JSON.stringify\<close> and
  the download.
\<close>

definition handleExport :: "(int \<Rightarrow> string) \<Rightarrow> TaskState \<Rightarrow> js_error + ExportedData" where
  "handleExport toISOString state =
    (case map_entries (export_task toISOString) (tasks state) of
       Inl e \<Rightarrow> Inl e
     | Inr exported \<Rightarrow>
         Inr \<lparr>data_version = Some CURRENT_DATA_VERSION,
              data_tasks = JS_object (map (\<lambda>(k, t). (k, Some t)) (Object_fromEntries exported)),
              data_rootTaskIds = JS_array (rootTaskIds state),
              data_taskTemplates =
                (case taskTemplates state of None \<Rightarrow> JS_null | Some m \<Rightarrow> JS_object m)\<rparr>)"

text \<open>
  One entry of \<open>importState\<close>'s map: \<open>{...task, createdAt: new Date(task.createdAt),
  completedAt: task.completedAt ? new Date(task.completedAt) : null}\<close>. \<open>new Date\<close> never
  throws; an empty string is falsy. Reading \<open>task.createdAt\<close> of a \<open>null\<close> entry throws a
  TypeError.
\<close>

definition rehydrate :: "(string \<Rightarrow> int option) \<Rightarrow> ExportedTask \<Rightarrow> Task" where
  "rehydrate Date_parse task =
    \<lparr>task_id = task_id task, title = title task, description = description task,
     completed = completed task, parentId = parentId task,
     childrenIds = childrenIds task,
     createdAt = new_Date Date_parse (createdAt task),
     completedAt =
       (case completedAt task of
          None \<Rightarrow> None
        | Some s \<Rightarrow> if s = [] then None else Some (new_Date Date_parse s)),
     estimatedMinutes = estimatedMinutes task, tags = tags task,
     priority = priority task\<rparr>"

definition rehydrate_task :: "(string \<Rightarrow> int option) \<Rightarrow> ExportedTask option \<Rightarrow> js_error + Task" where
  "rehydrate_task Date_parse entry =
    (case entry of None \<Rightarrow> Inl TypeError | Some task \<Rightarrow> Inr (rehydrate Date_parse task))"

text \<open>
  What the store holds after \<open>set\<close> stored a field of the document: the elements of an
  array, and the entries of an object (an array read as a record answers to its indices);
  \<open>None\<close> is \<open>null\<close>.
\<close>

definition array_elements :: "'a js_field \<Rightarrow> 'a list" where
  "array_elements v = (case v of JS_array xs \<Rightarrow> xs | _ \<Rightarrow> [])"

definition as_record :: "'a js_field \<Rightarrow> (string \<times> 'a) list option" where
  "as_record v =
    (case v of JS_object m \<Rightarrow> Some m | JS_array xs \<Rightarrow> Some (array_entries xs) | _ \<Rightarrow> None)"

text \<open>
  \<open>importState\<close>: \<open>data\<close> is \<open>None\<close> when the argument is \<open>null\<close> or \<open>undefined\<close>. The result is
  the returned boolean and the store afterwards.
\<close>

definition importState ::
  "(string \<Rightarrow> int option) \<Rightarrow> ExportedData option \<Rightarrow> TaskState \<Rightarrow> bool \<times> TaskState" where
  "importState Date_parse data state =
    (case data of
       None \<Rightarrow> (False, state)
     | Some d \<Rightarrow>
         if \<not> typeof_object (data_tasks d) \<or> \<not> Array_isArray (data_rootTaskIds d)
            \<or> \<not> typeof_object (data_taskTemplates d)
         then (False, state)
         else
           (case Object_entries (data_tasks d) of
              Inl e \<Rightarrow> (False, state)
            | Inr entries \<Rightarrow>
                (case map_entries (rehydrate_task Date_parse) entries of
                   Inl e \<Rightarrow> (False, state)
                 | Inr rehydrated \<Rightarrow>
                     (True,
                      state\<lparr>tasks := Object_fromEntries rehydrated,
                            rootTaskIds := array_elements (data_rootTaskIds d),
                            taskTemplates := as_record (data_taskTemplates d),
                            selectedTaskId := None,
                            editingTaskId := None,
                            columns := []\<rparr>))))"

text \<open>
  A date survives the export and the import when the platform parses the text it printed
  for it back to the same time value; the text \<open>toISOString\<close> prints is never empty. A
  task can be exported and read back when its \<open>createdAt\<close> is such a date and its
  \<open>completedAt\<close> is such a date or \<open>null\<close>.
\<close>

definition date_survives :: "(int \<Rightarrow> string) \<Rightarrow> (string \<Rightarrow> int option) \<Rightarrow> Date \<Rightarrow> bool" where
  "date_survives toISOString Date_parse d =
    (case d of
       Date t \<Rightarrow> toISOString t \<noteq> [] \<and> Date_parse (toISOString t) = Some t
     | Invalid_Date \<Rightarrow> False)"

definition task_survives :: "(int \<Rightarrow> string) \<Rightarrow> (string \<Rightarrow> int option) \<Rightarrow> Task \<Rightarrow> bool" where
  "task_survives toISOString Date_parse task =
    (date_survives toISOString Date_parse (createdAt task) \<and>
     (case completedAt task of
        None \<Rightarrow> True
      | Some d \<Rightarrow> date_survives toISOString Date_parse d))"

subsection \<open>An instance of the platform's ISO-8601 conversions\<close>

text \<open>
  \<open>ISO_toISOString\<close> prints a time value the way \<open>Date.prototype.toISOString\<close> does
  (\<open>YYYY-MM-DDTHH:mm:ss.sssZ\<close> in UTC, with the signed six-digit year outside 0..9999), and
  \<open>ISO_parse\<close> reads that format with a four-digit year; it answers \<open>None\<close> to every other
  text, where the platform may accept more. The theorems about the codec are stated for
  any pair of conversions; this pair instantiates them.
\<close>

definition pad :: "nat \<Rightarrow> int \<Rightarrow> string" where
  "pad width n = (let digits = decimal n in replicate (width - length digits) CHR ''0'' @ digits)"

text \<open>The civil date (year, month, day) of a day number counted from 1 January 1970.\<close>

definition civil_from_days :: "int \<Rightarrow> int \<times> int \<times> int" where
  "civil_from_days z =
    (let z' = z + 719468;
         era = z' div 146097;
         doe = z' mod 146097;
         yoe = (doe - doe div 1460 + doe div 36524 - doe div 146096) div 365;
         doy = doe - (365 * yoe + yoe div 4 - yoe div 100);
         mp = (5 * doy + 2) div 153;
         d = doy - (153 * mp + 2) div 5 + 1;
         m = (if mp < 10 then mp + 3 else mp - 9);
         y = yoe + era * 400 + (if m \<le> 2 then 1 else 0)
     in (y, m, d))"

definition days_from_civil :: "int \<Rightarrow> int \<Rightarrow> int \<Rightarrow> int" where
  "days_from_civil y m d =
    (let y' = (if m \<le> 2 then y - 1 else y);
         era = y' div 400;
         yoe = y' mod 400;
         doy = (153 * (if m > 2 then m - 3 else m + 9) + 2) div 5 + d - 1;
         doe = yoe * 365 + yoe div 4 - yoe div 100 + doy
     in era * 146097 + doe - 719468)"

definition ISO_toISOString :: "int \<Rightarrow> string" where
  "ISO_toISOString t =
    (case civil_from_days (t div msPerDay) of
       (y, m, d) \<Rightarrow>
         (let ms = t mod msPerDay
          in (if 0 \<le> y \<and> y \<le> 9999 then pad 4 y
              else (if y < 0 then ''-'' else ''+'') @ pad 6 \<bar>y\<bar>)
             @ ''-'' @ pad 2 m @ ''-'' @ pad 2 d @ ''T'' @ pad 2 (ms div 3600000)
             @ '':'' @ pad 2 (ms div 60000 mod 60) @ '':'' @ pad 2 (ms div 1000 mod 60)
             @ ''.'' @ pad 3 (ms mod 1000) @ ''Z''))"

definition digit_value :: "char \<Rightarrow> int option" where
  "digit_value c =
    (let code = of_char c :: nat
     in if 48 \<le> code \<and> code \<le> 57 then Some (int code - 48) else None)"

fun number_value :: "int \<Rightarrow> string \<Rightarrow> int option" where
  "number_value acc [] = Some acc"
| "number_value acc (c # cs) =
    (case digit_value c of None \<Rightarrow> None | Some v \<Rightarrow> number_value (10 * acc + v) cs)"

definition field :: "nat \<Rightarrow> nat \<Rightarrow> string \<Rightarrow> int option" where
  "field start len s = number_value 0 (take len (drop start s))"

definition ISO_parse :: "string \<Rightarrow> int option" where
  "ISO_parse s =
    (if length s = 24 \<and> s ! 4 = CHR ''-'' \<and> s ! 7 = CHR ''-'' \<and> s ! 10 = CHR ''T''
        \<and> s ! 13 = CHR '':'' \<and> s ! 16 = CHR '':'' \<and> s ! 19 = CHR ''.'' \<and> s ! 23 = CHR ''Z''
     then
       (case (field 0 4 s, field 5 2 s, field 8 2 s, field 11 2 s, field 14 2 s, field 17 2 s,
              field 20 3 s) of
          (Some y, Some m, Some d, Some h, Some mi, Some sec, Some ms) \<Rightarrow>
            if 1 \<le> m \<and> m \<le> 12 \<and> 1 \<le> d \<and> d \<le> 31 \<and> h \<le> 23 \<and> mi \<le> 59 \<and> sec \<le> 59 then
              Some (days_from_civil y m d * msPerDay + h * 3600000 + mi * 60000 + sec * 1000 + ms)
            else None
        | _ \<Rightarrow> None)
     else None)"

subsection \<open>applyTemplate\<close>

text \<open>
  The local variables \<open>applyTemplate\<close> fills before it commits them to the store, with the
  number of ids drawn from \<open>uuidv4\<close> so far. \<open>uuidv4 k\<close> is the \<open>k\<close>-th id the generator
  returns and \<open>Date_new k\<close> the time value of the \<open>new Date()\<close> evaluated for the \<open>k\<close>-th
  generated task.
\<close>

record TemplateRun =
  tempTasks :: "(string \<times> Task) list"
  tempRootTaskIds :: "string list"
  tempParentChildMap :: "(string \<times> string list) list"
  generatedTopLevelTaskIds :: "string list"
  uuid_calls :: nat

text \<open>
  \<open>x || undefined\<close> on an optional string or number: the empty string and 0 are falsy.
\<close>

definition or_undefined_string :: "string option \<Rightarrow> string option" where
  "or_undefined_string v = (case v of None \<Rightarrow> None | Some s \<Rightarrow> if s = [] then None else Some s)"

definition or_undefined_number :: "int option \<Rightarrow> int option" where
  "or_undefined_number v = (case v of None \<Rightarrow> None | Some n \<Rightarrow> if n = 0 then None else Some n)"

definition children_list :: "TaskTemplateTaskDefinition \<Rightarrow> TaskTemplateTaskDefinition list" where
  "children_list taskDef = (case def_children taskDef of None \<Rightarrow> [] | Some cs \<Rightarrow> cs)"

text \<open>
  The closure \<open>processTaskDefinition\<close>, with \<open>process_children\<close> for its
  \<open>taskDef.children.forEach\<close>; it returns the new id and the updated locals. When
  \<open>currentParentId\<close> names an inherited property of \<open>tempParentChildMap\<close>, the value read is
  not an array and \<open>push\<close> throws a TypeError.
\<close>

function processTaskDefinition ::
  "(nat \<Rightarrow> string) \<Rightarrow> (nat \<Rightarrow> int) \<Rightarrow> Date option \<Rightarrow> TaskTemplateTaskDefinition \<Rightarrow> string option
    \<Rightarrow> TemplateRun \<Rightarrow> js_error + (string \<times> TemplateRun)"
  and process_children ::
  "(nat \<Rightarrow> string) \<Rightarrow> (nat \<Rightarrow> int) \<Rightarrow> Date option \<Rightarrow> TaskTemplateTaskDefinition list \<Rightarrow> string
    \<Rightarrow> TemplateRun \<Rightarrow> js_error + TemplateRun" where
  "processTaskDefinition uuidv4 Date_new startDateTime taskDef currentParentId run =
    (let newTaskId = uuidv4 (uuid_calls run);
         newTask =
           \<lparr>task_id = newTaskId,
            title = def_title taskDef,
            description = or_undefined_string (def_description taskDef),
            completed = False,
            parentId = currentParentId,
            childrenIds = [],
            createdAt = (case startDateTime of Some d \<Rightarrow> d | None \<Rightarrow> Date (Date_new (uuid_calls run))),
            completedAt = None,
            estimatedMinutes = or_undefined_number (def_estimatedMinutes taskDef),
            tags = (case def_tags taskDef of None \<Rightarrow> [] | Some ts \<Rightarrow> ts),
            priority = (case def_priority taskDef of None \<Rightarrow> medium | Some p \<Rightarrow> p)\<rparr>;
         run1 = run\<lparr>tempTasks := AList.update newTaskId newTask (tempTasks run),
                    uuid_calls := uuid_calls run + 1\<rparr>;
         linked =
           (case truthy currentParentId of
              Some pid \<Rightarrow>
                (case property (tempParentChildMap run1) pid of
                   Own cs \<Rightarrow>
                     Inr (run1\<lparr>tempParentChildMap :=
                       AList.update pid (cs @ [newTaskId]) (tempParentChildMap run1)\<rparr>)
                 | Absent \<Rightarrow>
                     Inr (run1\<lparr>tempParentChildMap :=
                       AList.update pid [newTaskId] (tempParentChildMap run1)\<rparr>)
                 | Inherited \<Rightarrow> Inl TypeError)
            | None \<Rightarrow>
                Inr (run1\<lparr>tempRootTaskIds := tempRootTaskIds run1 @ [newTaskId],
                     generatedTopLevelTaskIds := generatedTopLevelTaskIds run1 @ [newTaskId]\<rparr>))
     in case linked of
          Inl e \<Rightarrow> Inl e
        | Inr run2 \<Rightarrow>
            (case process_children uuidv4 Date_new startDateTime (children_list taskDef) newTaskId run2 of
               Inl e \<Rightarrow> Inl e
             | Inr run3 \<Rightarrow> Inr (newTaskId, run3)))"
| "process_children uuidv4 Date_new startDateTime [] parent run = Inr run"
| "process_children uuidv4 Date_new startDateTime (childDef # childDefs) parent run =
    (case processTaskDefinition uuidv4 Date_new startDateTime childDef (Some parent) run of
       Inl e \<Rightarrow> Inl e
     | Inr (newTaskId, run1) \<Rightarrow> process_children uuidv4 Date_new startDateTime childDefs parent run1)"
  by pat_completeness auto
termination
proof (relation "measure (\<lambda>x. case x of
    Inl (uuidv4, Date_new, startDateTime, taskDef, currentParentId, run) \<Rightarrow> size taskDef
  | Inr (uuidv4, Date_new, startDateTime, childDefs, parent, run) \<Rightarrow> size_list size childDefs)",
    goal_cases)
  case 1
  show ?case by simp
next
  case (2 uuidv4 Date_new startDateTime taskDef currentParentId run)
  have "size_list size (children_list taskDef) < size taskDef"
    by (cases taskDef) (simp add: children_list_def split: option.splits)
  then show ?case by simp
next
  case 3
  show ?case by simp
next
  case 4
  show ?case by simp
qed

text \<open>
  \<open>Object.keys(tempParentChildMap).forEach(pId => { if (tempTasks[pId])
  tempTasks[pId].childrenIds = tempParentChildMap[pId]; })\<close>. An inherited value is not
  an entry of \<open>tempTasks\<close>: the assignment leaves \<open>tempTasks\<close> as it is.
\<close>

definition link_children :: "TemplateRun \<Rightarrow> TemplateRun" where
  "link_children run =
    run\<lparr>tempTasks :=
      foldl (\<lambda>tmp (pId, cs).
               case property tmp pId of
                 Own t \<Rightarrow> AList.update pId (t\<lparr>childrenIds := cs\<rparr>) tmp
               | Inherited \<Rightarrow> tmp
               | Absent \<Rightarrow> tmp)
        (tempTasks run) (tempParentChildMap run)\<rparr>"

text \<open>\<open>{ ...a, ...b }\<close>: the entries of \<open>b\<close> are written over those of \<open>a\<close>.\<close>

definition spread_objects :: "(string \<times> 'a) list \<Rightarrow> (string \<times> 'a) list \<Rightarrow> (string \<times> 'a) list" where
  "spread_objects a b = foldl (\<lambda>obj (k, v). AList.update k v obj) a b"

text \<open>
  \<open>newColumns[newColumns.findIndex(p)] = f(...)\<close> when the index is not -1: the first
  element that satisfies \<open>p\<close> is replaced.
\<close>

fun replace_first :: "('a \<Rightarrow> bool) \<Rightarrow> ('a \<Rightarrow> 'a) \<Rightarrow> 'a list \<Rightarrow> 'a list" where
  "replace_first p f [] = []"
| "replace_first p f (x # xs) = (if p x then f x # xs else x # replace_first p f xs)"

text \<open>
  The \<open>state.columns.map\<close> of the callback: a column whose \<open>parentTaskId\<close> is the given
  parent receives the ids of \<open>tempParentChildMap[parentId || '']\<close>, or of \<open>tempRootTaskIds\<close>
  when that is \<open>undefined\<close>. An inherited value has no \<open>forEach\<close>: a TypeError.
\<close>

fun add_to_columns :: "string option \<Rightarrow> TemplateRun \<Rightarrow> TaskColumn list \<Rightarrow> js_error + TaskColumn list" where
  "add_to_columns parent run [] = Inr []"
| "add_to_columns parent run (col # cols) =
    (case (if parentTaskId col = parent then
             (case property (tempParentChildMap run)
                     (case truthy parent of Some pid \<Rightarrow> pid | None \<Rightarrow> []) of
                Own cs \<Rightarrow> Inr (col\<lparr>taskIds := foldl Set_add (new_Set (taskIds col)) cs\<rparr>)
              | Absent \<Rightarrow>
                  Inr (col\<lparr>taskIds := foldl Set_add (new_Set (taskIds col)) (tempRootTaskIds run)\<rparr>)
              | Inherited \<Rightarrow> Inl TypeError)
           else Inr col) of
       Inl e \<Rightarrow> Inl e
     | Inr col' \<Rightarrow>
         (case add_to_columns parent run cols of Inl e \<Rightarrow> Inl e | Inr cols' \<Rightarrow> Inr (col' # cols')))"

text \<open>
  The callback given to \<open>set\<close> at the end of \<open>applyTemplate\<close>. When \<open>parentId\<close> names an
  inherited property of \<open>finalTasks\<close> or of \<open>tempParentChildMap\<close>, the spread of the value read
  (\<open>[...parentTask.childrenIds, ...]\<close>) throws a TypeError.
\<close>

definition commit_template :: "string option \<Rightarrow> TemplateRun \<Rightarrow> TaskState \<Rightarrow> js_error + TaskState" where
  "commit_template parentId' run state =
    (let finalTasks = spread_objects (tasks state) (tempTasks run);
         finalRootTaskIds = foldl Set_add (rootTaskIds state) (tempRootTaskIds run);
         updated =
           (case truthy parentId' of
              Some pid \<Rightarrow>
                (case property finalTasks pid of
                   Own parentTask \<Rightarrow>
                     (case property (tempParentChildMap run) pid of
                        Own cs \<Rightarrow>
                          Inr (AList.update pid
                            (parentTask\<lparr>childrenIds := new_Set (childrenIds parentTask @ cs)\<rparr>)
                            finalTasks)
                      | Absent \<Rightarrow>
                          Inr (AList.update pid
                            (parentTask\<lparr>childrenIds := new_Set (childrenIds parentTask @ [])\<rparr>)
                            finalTasks)
                      | Inherited \<Rightarrow> Inl TypeError)
                 | Inherited \<Rightarrow> Inl TypeError
                 | Absent \<Rightarrow> Inr finalTasks)
            | None \<Rightarrow> Inr finalTasks)
     in case updated of
          Inl e \<Rightarrow> Inl e
        | Inr finalTasks' \<Rightarrow>
            (case add_to_columns parentId' run (columns state) of
               Inl e \<Rightarrow> Inl e
             | Inr newColumns \<Rightarrow>
                 Inr (state\<lparr>tasks := finalTasks',
                   rootTaskIds := finalRootTaskIds,
                   columns :=
                     (case truthy parentId' of
                        Some pid \<Rightarrow> newColumns
                      | None \<Rightarrow>
                          replace_first (\<lambda>col. parentTaskId col = None \<and> level col = 0)
                            (\<lambda>col. col\<lparr>taskIds :=
                               foldl Set_add (new_Set (taskIds col)) (tempRootTaskIds run)\<rparr>)
                            newColumns)\<rparr>)))"

text \<open>
  \<open>applyTemplate\<close> of the store that also has \<open>importState\<close> and the statistics
  (src/unnamed/part_005). The callback of \<open>template.tasks.forEach\<close> has an empty body, so
  the loop leaves the locals as they are; the call of \<open>processTaskDefinition\<close> is commented
  out in the source. Reading a template of a store whose \<open>taskTemplates\<close> is \<open>null\<close> throws
  a TypeError, and so does \<open>template.tasks.forEach\<close> when \<open>templateId\<close> names an inherited
  property. An exception of the callback of \<open>set\<close> leaves the action.
\<close>

definition applyTemplate ::
  "(nat \<Rightarrow> string) \<Rightarrow> (nat \<Rightarrow> int) \<Rightarrow> string \<Rightarrow> string option \<Rightarrow> Date option \<Rightarrow> TaskState
    \<Rightarrow> js_error + (string list \<times> TaskState)" where
  "applyTemplate uuidv4 Date_new templateId parentId' startDateTime state =
    (case taskTemplates state of
       None \<Rightarrow> Inl TypeError
     | Some templates \<Rightarrow>
         (case property templates templateId of
            Absent \<Rightarrow> Inr ([], state)
          | Inherited \<Rightarrow> Inl TypeError
          | Own template \<Rightarrow>
              (let run0 = \<lparr>tempTasks = [], tempRootTaskIds = [], tempParentChildMap = [],
                           generatedTopLevelTaskIds = [], uuid_calls = 0\<rparr>;
                   run1 = fold (\<lambda>taskDef run. run) (template_tasks template) run0;
                   run2 = link_children run1
               in case commit_template parentId' run2 state of
                    Inl e \<Rightarrow> Inl e
                  | Inr state' \<Rightarrow> Inr (generatedTopLevelTaskIds run2, state'))))"

text \<open>
  \<open>applyTemplate\<close> of the earlier revision of the store (src/unnamed/part_004, after
  src/App.tsx), whose \<open>addTask\<close> is the same function: every top-level definition becomes
  a task that is handed to \<open>addTask\<close>; \<open>startDateTime\<close> is not used and nested definitions
  are not expanded. \<open>top_level_tasks\<close> is the loop \<open>template.tasks.forEach\<close>, on the ids
  collected so far and the store.
\<close>

fun top_level_tasks ::
  "(nat \<Rightarrow> string) \<Rightarrow> (nat \<Rightarrow> int) \<Rightarrow> string option \<Rightarrow> TaskTemplateTaskDefinition list
    \<Rightarrow> string list \<Rightarrow> TaskState \<Rightarrow> (string list \<times> TaskState) outcome" where
  "top_level_tasks uuidv4 Date_new parentId' [] topLevelTaskIds state =
    Stored (topLevelTaskIds, state)"
| "top_level_tasks uuidv4 Date_new parentId' (taskDef # taskDefs) topLevelTaskIds state =
    (let newTask =
           \<lparr>task_id = uuidv4 (length topLevelTaskIds),
            title = def_title taskDef,
            description = def_description taskDef,
            completed = False,
            parentId = parentId',
            childrenIds = [],
            createdAt = Date (Date_new (length topLevelTaskIds)),
            completedAt = None,
            estimatedMinutes = def_estimatedMinutes taskDef,
            tags = (case def_tags taskDef of None \<Rightarrow> [] | Some ts \<Rightarrow> ts),
            priority = (case def_priority taskDef of None \<Rightarrow> medium | Some p \<Rightarrow> p)\<rparr>
     in case addTask newTask state of
          Stored state' \<Rightarrow>
            top_level_tasks uuidv4 Date_new parentId' taskDefs
              (topLevelTaskIds @ [task_id newTask]) state'
        | Thrown e \<Rightarrow> Thrown e
        | Stored_untyped key obj state' \<Rightarrow>
            Stored_untyped key obj (topLevelTaskIds @ [task_id newTask], state'))"

definition applyTemplate_earlier ::
  "(nat \<Rightarrow> string) \<Rightarrow> (nat \<Rightarrow> int) \<Rightarrow> string \<Rightarrow> string option \<Rightarrow> Date option \<Rightarrow> TaskState
    \<Rightarrow> (string list \<times> TaskState) outcome" where
  "applyTemplate_earlier uuidv4 Date_new templateId parentId' startDateTime state =
    (case taskTemplates state of
       None \<Rightarrow> Thrown TypeError
     | Some templates \<Rightarrow>
         (case property templates templateId of
            Absent \<Rightarrow> Stored ([], state)
          | Inherited \<Rightarrow> Thrown TypeError
          | Own template \<Rightarrow>
              top_level_tasks uuidv4 Date_new parentId' (template_tasks template) [] state))"

subsection \<open>The initial store\<close>

text \<open>
  \<open>initialCoreState\<close> and \<open>nonPersistentState\<close> of the source, the state the store starts
  in. \<open>loaded\<close> is the time value of the \<open>new Date()\<close> evaluated when the module is loaded.
  The Japanese titles and descriptions of the sample data are replaced by ASCII text; no
  action inspects them.
\<close>

definition initial_tasks :: "int \<Rightarrow> (string \<times> Task) list" where
  "initial_tasks loaded =
    [(''task-1'',
      \<lparr>task_id = ''task-1'', title = ''parent task 1 (sample)'',
       description = Some ''description of parent task 1'', completed = False, parentId = None,
       childrenIds = [''task-2'', ''task-3''], createdAt = Date loaded, completedAt = None,
       estimatedMinutes = None, tags = [], priority = medium\<rparr>),
     (''task-2'',
      \<lparr>task_id = ''task-2'', title = ''child task 1-1 (sample)'',
       description = Some ''details of child task 1-1'', completed = False,
       parentId = Some ''task-1'', childrenIds = [], createdAt = Date loaded, completedAt = None,
       estimatedMinutes = None, tags = [], priority = low\<rparr>),
     (''task-3'',
      \<lparr>task_id = ''task-3'', title = ''child task 1-2 (sample)'', description = None,
       completed = False, parentId = Some ''task-1'', childrenIds = [''task-4''],
       createdAt = Date loaded, completedAt = None, estimatedMinutes = None, tags = [],
       priority = high\<rparr>),
     (''task-4'',
      \<lparr>task_id = ''task-4'', title = ''grandchild task 1-2-1 (sample)'', description = None,
       completed = True, parentId = Some ''task-3'', childrenIds = [], createdAt = Date loaded,
       completedAt = Some (Date loaded), estimatedMinutes = None, tags = [], priority = medium\<rparr>),
     (''task-5'',
      \<lparr>task_id = ''task-5'', title = ''parent task 2 (sample)'', description = None,
       completed = False, parentId = None, childrenIds = [], createdAt = Date loaded,
       completedAt = None, estimatedMinutes = None, tags = [], priority = medium\<rparr>)]"

definition template_morning :: TaskTemplate where
  "template_morning =
    \<lparr>template_id = ''template-morning'', template_name = ''morning routine'',
     template_tasks =
       [TaskDef ''get up and dress'' (Some ''get up with the alarm'') (Some 15) None None None,
        TaskDef ''breakfast'' (Some ''cereal and coffee'') (Some 20) None None None,
        TaskDef ''brush teeth'' None (Some 10) None None None,
        TaskDef ''check the plan of the day'' None (Some 5) (Some high) None None]\<rparr>"

definition template_project_kickoff :: TaskTemplate where
  "template_project_kickoff =
    \<lparr>template_id = ''template-project-kickoff'', template_name = ''project kickoff'',
     template_tasks =
       [TaskDef ''confirm requirements'' None (Some 120) (Some high) None None,
        TaskDef ''list the tasks'' None None (Some high) None
          (Some [TaskDef ''write the WBS'' None (Some 60) None None None,
                 TaskDef ''assign owners'' None (Some 30) None None None]),
        TaskDef ''write the schedule'' None (Some 90) (Some medium) None None,
        TaskDef ''set up the kickoff meeting'' None None (Some low) (Some [''meeting'']) None]\<rparr>"

definition initial_state :: "int \<Rightarrow> TaskState" where
  "initial_state loaded =
    \<lparr>tasks = initial_tasks loaded,
     columns = [],
     rootTaskIds = [''task-1'', ''task-5''],
     selectedTaskId = None,
     editingTaskId = None,
     taskTemplates =
       Some [(''template-morning'', template_morning),
             (''template-project-kickoff'', template_project_kickoff)]\<rparr>"

text \<open>A task as the tests of the store build one: only the id, the parent and the children vary.\<close>

definition test_task :: "string \<Rightarrow> string option \<Rightarrow> string list \<Rightarrow> Task" where
  "test_task i p cs =
    \<lparr>task_id = i, title = ''Test Task'', description = None, completed = False, parentId = p,
     childrenIds = cs, createdAt = Date 1698314400000, completedAt = None,
     estimatedMinutes = None, tags = [], priority = medium\<rparr>"

text \<open>
  The forest invariant of the data model (specification, section 3), as the specification
  words it: the \<open>childrenIds\<close> of every task are exactly the ids of the tasks whose
  \<open>parentId\<close> is that task's id.
\<close>

definition children_mirror_parents :: "(string \<times> Task) list \<Rightarrow> bool" where
  "children_mirror_parents ts =
    list_all (\<lambda>p. set (childrenIds p) =
                   set (map task_id (filter (\<lambda>c. parentId c = Some (task_id p)) (map snd ts))))
      (map snd ts)"

text \<open>
  The store of the scenario in section 8 of the specification: root task A with the
  children B and C, and B with the child D.
\<close>

definition scenario_state :: TaskState where
  "scenario_state =
    \<lparr>tasks = [(''A'', test_task ''A'' None [''B'', ''C'']),
              (''B'', test_task ''B'' (Some ''A'') [''D'']),
              (''C'', test_task ''C'' (Some ''A'') []),
              (''D'', test_task ''D'' (Some ''B'') [])],
     columns = [],
     rootTaskIds = [''A''],
     selectedTaskId = Some ''B'',
     editingTaskId = None,
     taskTemplates = Some []\<rparr>"

text \<open>The scenario store after C was completed on 26 October 2023 at 12:00 UTC.\<close>

definition scenario_state_C_completed :: TaskState where
  "scenario_state_C_completed =
    scenario_state\<lparr>tasks := AList.update ''C''
      ((test_task ''C'' (Some ''A'') [])\<lparr>completed := True,
                                         completedAt := Some (Date 1698321600000)\<rparr>)
      (tasks scenario_state)\<rparr>"

text \<open>
  Stores that hold an id which is also the name of a property of \<open>Object.prototype\<close>.
  In \<open>selected_constructor_state\<close> the selection is the id \<open>constructor\<close>, which names no
  task (\<open>setSelectedTaskId\<close> stores the string it is given). In \<open>constructor_child_state\<close>
  the task D names \<open>constructor\<close> as its parent. \<open>constructor_root_state\<close> is the store
  \<open>importState\<close> leaves for a document with the one task A whose \<open>rootTaskIds\<close> names,
  after A, the id \<open>constructor\<close> and the id Z, both of no task.
\<close>

definition selected_constructor_state :: TaskState where
  "selected_constructor_state = scenario_state\<lparr>selectedTaskId := Some ''constructor''\<rparr>"

definition constructor_child_state :: TaskState where
  "constructor_child_state =
    \<lparr>tasks = [(''A'', test_task ''A'' None [''B'', ''C'']),
              (''B'', test_task ''B'' (Some ''A'') [''D'']),
              (''C'', test_task ''C'' (Some ''A'') []),
              (''D'', test_task ''D'' (Some ''constructor'') [])],
     columns = [],
     rootTaskIds = [''A''],
     selectedTaskId = Some ''B'',
     editingTaskId = None,
     taskTemplates = Some []\<rparr>"

definition constructor_root_state :: TaskState where
  "constructor_root_state =
    \<lparr>tasks = [(''A'', (test_task ''A'' None [])\<lparr>completed := True,
                     completedAt := Some (Date 1698321600000)\<rparr>)],
     columns = [],
     rootTaskIds = [''A'', ''constructor'', ''Z''],
     selectedTaskId = None,
     editingTaskId = None,
     taskTemplates = Some []\<rparr>"

text \<open>
  A store with a chain of six tasks, each the only existing child of the one before; every
  list of children, and the list of roots, also names \<open>gone\<close>, the id of no task.
\<close>

definition chain_state :: TaskState where
  "chain_state =
    \<lparr>tasks = [(''T1'', test_task ''T1'' None [''gone'', ''T2'']),
              (''T2'', test_task ''T2'' (Some ''T1'') [''T3'', ''gone'']),
              (''T3'', test_task ''T3'' (Some ''T2'') [''T4'']),
              (''T4'', test_task ''T4'' (Some ''T3'') [''T5'']),
              (''T5'', test_task ''T5'' (Some ''T4'') [''T6'']),
              (''T6'', test_task ''T6'' (Some ''T5'') [])],
     columns = [],
     rootTaskIds = [''gone'', ''T1''],
     selectedTaskId = None,
     editingTaskId = None,
     taskTemplates = Some []\<rparr>"

text \<open>An exported task with ISO-8601 timestamps, as it stands in an export file.\<close>

definition exported_A :: ExportedTask where
  "exported_A =
    \<lparr>task_id = ''A'', title = ''Test Task'', description = None, completed = True,
     parentId = None, childrenIds = [], createdAt = ''2023-10-26T10:00:00.000Z'',
     completedAt = Some ''2023-10-26T12:00:00.000Z'', estimatedMinutes = None, tags = [],
     priority = medium\<rparr>"

section \<open>Properties of the store actions\<close>

subsection \<open>Sets as insertion-ordered lists\<close>

lemma Set_add_distinct: "distinct members \<Longrightarrow> distinct (Set_add members x)"
  by (simp add: Set_add_def)

lemma set_Set_add: "set (Set_add members x) = insert x (set members)"
  by (auto simp: Set_add_def)

lemma foldl_Set_add_distinct: "distinct acc \<Longrightarrow> distinct (foldl Set_add acc xs)"
  by (induction xs arbitrary: acc) (simp_all add: Set_add_distinct)

lemma set_foldl_Set_add: "set (foldl Set_add acc xs) = set acc \<union> set xs"
  by (induction xs arbitrary: acc) (auto simp: set_Set_add)

lemma new_Set_distinct: "distinct (new_Set xs)"
  by (simp add: new_Set_def foldl_Set_add_distinct)

lemma set_new_Set: "set (new_Set xs) = set xs"
  by (simp add: new_Set_def set_foldl_Set_add)

lemma count_list_distinct: "distinct xs \<Longrightarrow> x \<in> set xs \<Longrightarrow> count_list xs x = 1"
  by (induction xs) auto

lemma count_list_append_same: "count_list (xs @ [x]) x = Suc (count_list xs x)"
  by (induction xs) auto

lemma count_Set_add_new_Set: "count_list (Set_add (new_Set xs) x) x = 1"
  by (rule count_list_distinct) (simp_all add: Set_add_distinct new_Set_distinct set_Set_add)

subsection \<open>Reading a property\<close>

lemma property_Own: "map_of obj k = Some v \<Longrightarrow> property obj k = Own v"
  by (simp add: property_def)

lemma property_Own_iff: "property obj k = Own v \<longleftrightarrow> map_of obj k = Some v"
  by (simp add: property_def split: option.splits)

lemma property_Absent_iff:
  "property obj k = Absent \<longleftrightarrow> map_of obj k = None \<and> k \<notin> set Object_prototype_names"
  by (simp add: property_def split: option.splits)

lemma property_Inherited_iff:
  "property obj k = Inherited \<longleftrightarrow> map_of obj k = None \<and> k \<in> set Object_prototype_names"
  by (simp add: property_def split: option.splits)

subsection \<open>addTask\<close>

lemma addTask_root:
  assumes "truthy (parentId T) = None"
  shows "addTask T s =
    Stored (s\<lparr>tasks := AList.update (task_id T) T (tasks s),
              rootTaskIds := (if task_id T \<in> set (rootTaskIds s) then rootTaskIds s
                              else rootTaskIds s @ [task_id T])\<rparr>)"
  using assms by (simp add: addTask_def Let_def)

lemma addTask_root_count:
  assumes "truthy (parentId T) = None" and "count_list (rootTaskIds s) (task_id T) \<le> 1"
  shows "\<exists>s1. addTask T s = Stored s1 \<and> count_list (rootTaskIds s1) (task_id T) = 1"
proof (cases "task_id T \<in> set (rootTaskIds s)")
  case True
  then have "count_list (rootTaskIds s) (task_id T) \<noteq> 0"
    by (simp add: count_list_0_iff)
  with assms True show ?thesis
    by (simp add: addTask_root)
next
  case False
  then have "count_list (rootTaskIds s) (task_id T) = 0"
    by (simp add: count_list_0_iff)
  with assms False show ?thesis
    by (simp add: addTask_root)
qed

lemma addTask_child:
  assumes "truthy (parentId T) = Some P"
    and "map_of (AList.update (task_id T) T (tasks s)) P = Some parent"
  shows "addTask T s =
    Stored (s\<lparr>tasks := AList.update P
                 (parent\<lparr>childrenIds := Set_add (new_Set (childrenIds parent)) (task_id T)\<rparr>)
                 (AList.update (task_id T) T (tasks s)),
              rootTaskIds := rootTaskIds s\<rparr>)"
  using assms by (simp add: addTask_def Let_def property_Own)

lemma addTask_child_count:
  assumes "truthy (parentId T) = Some P" and "map_of (tasks s) P \<noteq> None \<or> P = task_id T"
  shows "\<exists>s1 t1. addTask T s = Stored s1 \<and> map_of (tasks s1) P = Some t1 \<and>
              count_list (childrenIds t1) (task_id T) = 1"
proof -
  from assms(2) obtain parent where
    parent: "map_of (AList.update (task_id T) T (tasks s)) P = Some parent"
    by (cases "P = task_id T") (auto simp: update_conv')
  show ?thesis
    unfolding addTask_child [OF assms(1) parent]
    by (simp add: update_conv' count_Set_add_new_Set)
qed

text \<open>
  Claim C5, as amended. \<open>addTask\<close> appends the id of a parentless task to \<open>rootTaskIds\<close>
  only when it is not there yet, and never removes an entry: when the id occurs at most
  once in \<open>rootTaskIds\<close> before the call, it occurs exactly once afterwards, also after a
  second \<open>addTask\<close> with the same id. When \<open>parentId\<close> names a task \<open>P\<close> of the mapping (or
  the added task itself), the id occurs exactly once in the \<open>childrenIds\<close> of \<open>P\<close> after the
  call, whatever the list held before, also after a second \<open>addTask\<close> with the same id and
  parent. In each of these calls \<open>set\<close> stores a state of tasks (\<open>Stored\<close>).
\<close>

theorem addTask_id_exactly_once:
  "(truthy (parentId T) = None \<and> count_list (rootTaskIds s) (task_id T) \<le> 1 \<longrightarrow>
      (\<exists>s1. addTask T s = Stored s1 \<and>
         count_list (rootTaskIds s1) (task_id T) = 1 \<and>
         (\<forall>T'. task_id T' = task_id T \<and> truthy (parentId T') = None \<longrightarrow>
            (\<exists>s2. addTask T' s1 = Stored s2 \<and>
               count_list (rootTaskIds s2) (task_id T) = 1)))) \<and>
   (truthy (parentId T) = Some P \<and> (map_of (tasks s) P \<noteq> None \<or> P = task_id T) \<longrightarrow>
      (\<exists>s1 t1. addTask T s = Stored s1 \<and> map_of (tasks s1) P = Some t1 \<and>
         count_list (childrenIds t1) (task_id T) = 1 \<and>
         (\<forall>T'. task_id T' = task_id T \<and> truthy (parentId T') = Some P \<longrightarrow>
            (\<exists>s2 t2. addTask T' s1 = Stored s2 \<and> map_of (tasks s2) P = Some t2 \<and>
               count_list (childrenIds t2) (task_id T) = 1))))"
proof (intro conjI impI)
  assume a: "truthy (parentId T) = None \<and> count_list (rootTaskIds s) (task_id T) \<le> 1"
  then obtain s1 where s1: "addTask T s = Stored s1" "count_list (rootTaskIds s1) (task_id T) = 1"
    using addTask_root_count [of T s] by blast
  have "\<exists>s2. addTask T' s1 = Stored s2 \<and> count_list (rootTaskIds s2) (task_id T) = 1"
    if b: "task_id T' = task_id T \<and> truthy (parentId T') = None" for T'
    using addTask_root_count [of T' s1] b s1(2) by simp
  with s1 show "\<exists>s1. addTask T s = Stored s1 \<and>
         count_list (rootTaskIds s1) (task_id T) = 1 \<and>
         (\<forall>T'. task_id T' = task_id T \<and> truthy (parentId T') = None \<longrightarrow>
            (\<exists>s2. addTask T' s1 = Stored s2 \<and>
               count_list (rootTaskIds s2) (task_id T) = 1))"
    by blast
next
  assume a: "truthy (parentId T) = Some P \<and> (map_of (tasks s) P \<noteq> None \<or> P = task_id T)"
  then obtain s1 t1 where s1: "addTask T s = Stored s1" "map_of (tasks s1) P = Some t1"
      "count_list (childrenIds t1) (task_id T) = 1"
    using addTask_child_count [of T P s] by blast
  have "\<exists>s2 t2. addTask T' s1 = Stored s2 \<and> map_of (tasks s2) P = Some t2 \<and>
               count_list (childrenIds t2) (task_id T) = 1"
    if b: "task_id T' = task_id T \<and> truthy (parentId T') = Some P" for T'
    using addTask_child_count [of T' P s1] b s1(2) by simp
  with s1 show "\<exists>s1 t1. addTask T s = Stored s1 \<and> map_of (tasks s1) P = Some t1 \<and>
         count_list (childrenIds t1) (task_id T) = 1 \<and>
         (\<forall>T'. task_id T' = task_id T \<and> truthy (parentId T') = Some P \<longrightarrow>
            (\<exists>s2 t2. addTask T' s1 = Stored s2 \<and> map_of (tasks s2) P = Some t2 \<and>
               count_list (childrenIds t2) (task_id T) = 1))"
    by blast
qed

text \<open>
  The claim as stated fails on a store whose \<open>rootTaskIds\<close> already lists the id twice.
  \<open>importState\<close> produces such a store from a document that lists a root id twice; after
  \<open>addTask\<close> of a parentless task with that id, the id is still listed twice.
\<close>

theorem addTask_duplicate_root_counterexample:
  "importState ISO_parse
     (Some \<lparr>data_version = Some 1, data_tasks = JS_object [(''A'', Some exported_A)],
            data_rootTaskIds = JS_array [''A'', ''A''], data_taskTemplates = JS_object []\<rparr>)
     (initial_state 0) =
   (True,
    \<lparr>tasks = [(''A'', (test_task ''A'' None [])\<lparr>completed := True,
                     completedAt := Some (Date 1698321600000)\<rparr>)],
     columns = [], rootTaskIds = [''A'', ''A''], selectedTaskId = None, editingTaskId = None,
     taskTemplates = Some []\<rparr>) \<and>
   parentId (test_task ''A'' None []) = None \<and>
   addTask (test_task ''A'' None [])
     \<lparr>tasks = [(''A'', (test_task ''A'' None [])\<lparr>completed := True,
                      completedAt := Some (Date 1698321600000)\<rparr>)],
      columns = [], rootTaskIds = [''A'', ''A''], selectedTaskId = None, editingTaskId = None,
      taskTemplates = Some []\<rparr> =
   Stored
     \<lparr>tasks = [(''A'', test_task ''A'' None [])],
      columns = [], rootTaskIds = [''A'', ''A''], selectedTaskId = None, editingTaskId = None,
      taskTemplates = Some []\<rparr> \<and>
   count_list
     (rootTaskIds
        \<lparr>tasks = [(''A'', test_task ''A'' None [])],
         columns = [], rootTaskIds = [''A'', ''A''], selectedTaskId = None, editingTaskId = None,
         taskTemplates = Some []\<rparr>)
     (task_id (test_task ''A'' None [])) = 2"
proof (intro conjI)
  show "importState ISO_parse
     (Some \<lparr>data_version = Some 1, data_tasks = JS_object [(''A'', Some exported_A)],
            data_rootTaskIds = JS_array [''A'', ''A''], data_taskTemplates = JS_object []\<rparr>)
     (initial_state 0) =
   (True,
    \<lparr>tasks = [(''A'', (test_task ''A'' None [])\<lparr>completed := True,
                     completedAt := Some (Date 1698321600000)\<rparr>)],
     columns = [], rootTaskIds = [''A'', ''A''], selectedTaskId = None, editingTaskId = None,
     taskTemplates = Some []\<rparr>)"
    by code_simp
  show "parentId (test_task ''A'' None []) = None"
    by (simp add: test_task_def)
  show "addTask (test_task ''A'' None [])
     \<lparr>tasks = [(''A'', (test_task ''A'' None [])\<lparr>completed := True,
                      completedAt := Some (Date 1698321600000)\<rparr>)],
      columns = [], rootTaskIds = [''A'', ''A''], selectedTaskId = None, editingTaskId = None,
      taskTemplates = Some []\<rparr> =
   Stored
     \<lparr>tasks = [(''A'', test_task ''A'' None [])],
      columns = [], rootTaskIds = [''A'', ''A''], selectedTaskId = None, editingTaskId = None,
      taskTemplates = Some []\<rparr>"
    by (simp add: addTask_def test_task_def truthy_def)
  show "count_list
     (rootTaskIds
        \<lparr>tasks = [(''A'', test_task ''A'' None [])],
         columns = [], rootTaskIds = [''A'', ''A''], selectedTaskId = None, editingTaskId = None,
         taskTemplates = Some []\<rparr>)
     (task_id (test_task ''A'' None [])) = 2"
    by (simp add: test_task_def)
qed

text \<open>The amended claim on the initial store: a new root task, and a new child of task-1.\<close>

theorem addTask_id_exactly_once_witness:
  "(\<exists>s1. addTask (test_task ''a'' None []) (initial_state 0) = Stored s1 \<and>
      count_list (rootTaskIds s1) ''a'' = 1 \<and>
      (\<exists>s2. addTask (test_task ''a'' None [''x'']) s1 = Stored s2 \<and>
         count_list (rootTaskIds s2) ''a'' = 1)) \<and>
   (\<exists>s1 t1. addTask (test_task ''b'' (Some ''task-1'') []) (initial_state 0) = Stored s1 \<and>
      map_of (tasks s1) ''task-1'' = Some t1 \<and> count_list (childrenIds t1) ''b'' = 1 \<and>
      (\<exists>s2 t2. addTask (test_task ''b'' (Some ''task-1'') [''y'']) s1 = Stored s2 \<and>
         map_of (tasks s2) ''task-1'' = Some t2 \<and> count_list (childrenIds t2) ''b'' = 1))"
proof -
  have r: "truthy (parentId (test_task ''a'' None [])) = None \<and>
      count_list (rootTaskIds (initial_state 0)) (task_id (test_task ''a'' None [])) \<le> 1"
    by (simp add: truthy_def test_task_def initial_state_def)
  have c: "truthy (parentId (test_task ''b'' (Some ''task-1'') [])) = Some ''task-1'' \<and>
      (map_of (tasks (initial_state 0)) ''task-1'' \<noteq> None \<or>
       ''task-1'' = task_id (test_task ''b'' (Some ''task-1'') []))"
    by (simp add: truthy_def test_task_def initial_state_def initial_tasks_def)
  have r2: "task_id (test_task ''a'' None [''x'']) = task_id (test_task ''a'' None []) \<and>
      truthy (parentId (test_task ''a'' None [''x''])) = None"
    by (simp add: truthy_def test_task_def)
  have c2: "task_id (test_task ''b'' (Some ''task-1'') [''y'']) =
        task_id (test_task ''b'' (Some ''task-1'') []) \<and>
      truthy (parentId (test_task ''b'' (Some ''task-1'') [''y''])) = Some ''task-1''"
    by (simp add: truthy_def test_task_def)
  have ida: "task_id (test_task ''a'' None []) = ''a''"
    by (simp add: test_task_def)
  have idb: "task_id (test_task ''b'' (Some ''task-1'') []) = ''b''"
    by (simp add: test_task_def)
  note root = addTask_id_exactly_once [of "test_task ''a'' None []" "initial_state 0" "''task-1''",
      THEN conjunct1, THEN mp, OF r]
  note child = addTask_id_exactly_once [of "test_task ''b'' (Some ''task-1'') []" "initial_state 0"
      "''task-1''", THEN conjunct2, THEN mp, OF c]
  from root obtain s1 where s1: "addTask (test_task ''a'' None []) (initial_state 0) = Stored s1"
      "count_list (rootTaskIds s1) (task_id (test_task ''a'' None [])) = 1"
      "\<forall>T'. task_id T' = task_id (test_task ''a'' None []) \<and> truthy (parentId T') = None \<longrightarrow>
         (\<exists>s2. addTask T' s1 = Stored s2 \<and>
            count_list (rootTaskIds s2) (task_id (test_task ''a'' None [])) = 1)"
    by (elim exE conjE)
  from s1(3) [rule_format, OF r2] s1(1,2)
  have A: "\<exists>s1. addTask (test_task ''a'' None []) (initial_state 0) = Stored s1 \<and>
      count_list (rootTaskIds s1) ''a'' = 1 \<and>
      (\<exists>s2. addTask (test_task ''a'' None [''x'']) s1 = Stored s2 \<and>
         count_list (rootTaskIds s2) ''a'' = 1)"
    unfolding ida by blast
  from child obtain s1' t1 where s1':
      "addTask (test_task ''b'' (Some ''task-1'') []) (initial_state 0) = Stored s1'"
      "map_of (tasks s1') ''task-1'' = Some t1"
      "count_list (childrenIds t1) (task_id (test_task ''b'' (Some ''task-1'') [])) = 1"
      "\<forall>T'. task_id T' = task_id (test_task ''b'' (Some ''task-1'') []) \<and>
            truthy (parentId T') = Some ''task-1'' \<longrightarrow>
         (\<exists>s2 t2. addTask T' s1' = Stored s2 \<and> map_of (tasks s2) ''task-1'' = Some t2 \<and>
            count_list (childrenIds t2) (task_id (test_task ''b'' (Some ''task-1'') [])) = 1)"
    by (elim exE conjE)
  from s1'(4) [rule_format, OF c2] s1'(1,2,3)
  have B: "\<exists>s1 t1. addTask (test_task ''b'' (Some ''task-1'') []) (initial_state 0) = Stored s1 \<and>
      map_of (tasks s1) ''task-1'' = Some t1 \<and> count_list (childrenIds t1) ''b'' = 1 \<and>
      (\<exists>s2 t2. addTask (test_task ''b'' (Some ''task-1'') [''y'']) s1 = Stored s2 \<and>
         map_of (tasks s2) ''task-1'' = Some t2 \<and> count_list (childrenIds t2) ''b'' = 1)"
    unfolding idb by blast
  from A B show ?thesis
    by (rule conjI)
qed

text \<open>
  Outside the amended claim: a \<open>parentId\<close> that names no task but a property of
  \<open>Object.prototype\<close> makes \<open>addTask\<close> store an object that is not a task.
\<close>

lemma addTask_inherited_parent:
  "addTask (test_task ''b'' (Some ''constructor'') []) scenario_state =
   Stored_untyped ''constructor'' (no_properties\<lparr>upd_childrenIds := Some [''b'']\<rparr>)
     (scenario_state\<lparr>tasks := tasks scenario_state @ [(''b'', test_task ''b'' (Some ''constructor'') [])]\<rparr>)"
  by (simp add: addTask_def Let_def property_def Object_prototype_names_def scenario_state_def
      test_task_def truthy_def new_Set_def Set_add_def)

subsection \<open>deleteTask\<close>

lemma deleteTask_absent: "property (tasks s) i = Absent \<Longrightarrow> deleteTask i s = Stored s"
  by (simp add: deleteTask_def)

lemma deleteTask_existing_cases:
  assumes "map_of (tasks s) i = Some t"
    and "\<forall>P. truthy (parentId t) = Some P \<longrightarrow> property (AList.delete i (tasks s)) P \<noteq> Inherited"
  shows "deleteTask i s =
    Stored (after_delete i
      (case truthy (parentId t) of
         None \<Rightarrow> AList.delete i (tasks s)
       | Some P \<Rightarrow>
           (case map_of (AList.delete i (tasks s)) P of
              None \<Rightarrow> AList.delete i (tasks s)
            | Some pt \<Rightarrow>
                AList.update P (pt\<lparr>childrenIds := filter (\<lambda>c. c \<noteq> i) (childrenIds pt)\<rparr>)
                  (AList.delete i (tasks s)))) s)"
proof (cases "truthy (parentId t)")
  case None
  with assms(1) show ?thesis
    by (simp add: deleteTask_def property_Own Let_def)
next
  case (Some P)
  with assms(2) have not_inherited: "property (AList.delete i (tasks s)) P \<noteq> Inherited"
    by simp
  show ?thesis
  proof (cases "property (AList.delete i (tasks s)) P")
    case (Own parent)
    then have "map_of (AList.delete i (tasks s)) P = Some parent"
      by (simp add: property_Own_iff)
    with Own Some assms(1) show ?thesis
      by (simp add: deleteTask_def property_Own Let_def)
  next
    case Inherited
    with not_inherited show ?thesis
      by simp
  next
    case Absent
    then have "map_of (AList.delete i (tasks s)) P = None"
      by (simp add: property_Absent_iff)
    with Absent Some assms(1) show ?thesis
      by (simp add: deleteTask_def property_Own Let_def)
  qed
qed

text \<open>
  What \<open>deleteTask\<close> does to a task of the mapping, unless the task's \<open>parentId\<close> names
  no task but an inherited property: it removes the key \<open>i\<close>; the \<open>childrenIds\<close> of the
  task's parent \<open>P\<close> become the old list without \<open>i\<close>, the other ids in their order
  (\<open>filter\<close>), and nothing else of the parent changes; \<open>rootTaskIds\<close> loses \<open>i\<close>;
  \<open>selectedTaskId\<close> and \<open>editingTaskId\<close> become \<open>null\<close> when they hold \<open>i\<close> and are kept
  otherwise; every task other than \<open>i\<close> and the parent is left as it is; and every other
  task whose \<open>parentId\<close> is \<open>i\<close> is still in the mapping with that \<open>parentId\<close>.
\<close>

lemma deleteTask_existing:
  assumes t: "map_of (tasks s) i = Some t"
    and p: "\<forall>P. truthy (parentId t) = Some P \<longrightarrow> property (AList.delete i (tasks s)) P \<noteq> Inherited"
  shows "\<exists>s'. deleteTask i s = Stored s' \<and>
      map_of (tasks s') i = None \<and>
      (\<forall>P pt. truthy (parentId t) = Some P \<and> P \<noteq> i \<and> map_of (tasks s) P = Some pt \<longrightarrow>
         map_of (tasks s') P =
           Some (pt\<lparr>childrenIds := filter (\<lambda>c. c \<noteq> i) (childrenIds pt)\<rparr>)) \<and>
      rootTaskIds s' = filter (\<lambda>r. r \<noteq> i) (rootTaskIds s) \<and>
      selectedTaskId s' = (if selectedTaskId s = Some i then None else selectedTaskId s) \<and>
      editingTaskId s' = (if editingTaskId s = Some i then None else editingTaskId s) \<and>
      columns s' = columns s \<and>
      taskTemplates s' = taskTemplates s \<and>
      (\<forall>k. k \<noteq> i \<and> truthy (parentId t) \<noteq> Some k \<longrightarrow> map_of (tasks s') k = map_of (tasks s) k) \<and>
      (\<forall>c ct. c \<noteq> i \<and> map_of (tasks s) c = Some ct \<and> parentId ct = Some i \<longrightarrow>
         (\<exists>ct'. map_of (tasks s') c = Some ct' \<and> parentId ct' = Some i))"
  unfolding deleteTask_existing_cases [OF t p]
  by (auto simp: after_delete_def Let_def update_conv' delete_conv' truthy_def
      split: option.splits if_splits)

lemma constructor_child_state_reached:
  "updateTask ''D'' (no_properties\<lparr>upd_parentId := Some (Some ''constructor'')\<rparr>) scenario_state =
   Stored constructor_child_state"
  by (simp add: updateTask_def property_def scenario_state_def constructor_child_state_def
      spread_def restOfProperties_def no_properties_def test_task_def)

text \<open>
  Claim C6, at two inputs where the code leaves it. The claim: \<open>deleteTask\<close> of an id
  that is absent from the mapping returns the state unchanged, and \<open>deleteTask\<close> of an
  existing task removes it from the mapping. The code: the id \<open>constructor\<close> is absent from
  the mapping of \<open>selected_constructor_state\<close>, yet \<open>deleteTask\<close> of it clears the selection;
  and the task D of \<open>constructor_child_state\<close>, whose \<open>parentId\<close> is \<open>constructor\<close>, is not
  removed: the call throws a TypeError.
\<close>

theorem deleteTask_prototype_name:
  "map_of (tasks selected_constructor_state) ''constructor'' = None \<and>
   selectedTaskId selected_constructor_state = Some ''constructor'' \<and>
   deleteTask ''constructor'' selected_constructor_state =
     Stored (selected_constructor_state\<lparr>selectedTaskId := None\<rparr>) \<and>
   map_of (tasks constructor_child_state) ''D'' = Some (test_task ''D'' (Some ''constructor'') []) \<and>
   deleteTask ''D'' constructor_child_state = Thrown TypeError"
proof (intro conjI)
  show "map_of (tasks selected_constructor_state) ''constructor'' = None"
    by (simp add: selected_constructor_state_def scenario_state_def)
  show "selectedTaskId selected_constructor_state = Some ''constructor''"
    by (simp add: selected_constructor_state_def)
  show "deleteTask ''constructor'' selected_constructor_state =
     Stored (selected_constructor_state\<lparr>selectedTaskId := None\<rparr>)"
    by (simp add: deleteTask_def after_delete_def property_def Object_prototype_names_def
        selected_constructor_state_def scenario_state_def)
  show "map_of (tasks constructor_child_state) ''D'' = Some (test_task ''D'' (Some ''constructor'') [])"
    by (simp add: constructor_child_state_def)
  show "deleteTask ''D'' constructor_child_state = Thrown TypeError"
    by (simp add: deleteTask_def property_def Object_prototype_names_def truthy_def
        constructor_child_state_def test_task_def)
qed

text \<open>
  Deleting B from the scenario store: A keeps its other child C, D stays with
  \<open>parentId\<close> B, and the selection, which was B, is cleared. Deleting Z, which names
  neither a task nor an inherited property, changes nothing.
\<close>

lemma deleteTask_scenario:
  "deleteTask ''Z'' scenario_state = Stored scenario_state \<and>
   deleteTask ''B'' scenario_state =
     Stored (scenario_state\<lparr>tasks := [(''A'', test_task ''A'' None [''C'']),
                                       (''C'', test_task ''C'' (Some ''A'') []),
                                       (''D'', test_task ''D'' (Some ''B'') [])],
                             selectedTaskId := None\<rparr>)"
  by (simp add: deleteTask_def after_delete_def property_def Object_prototype_names_def truthy_def
      scenario_state_def test_task_def)

subsection \<open>toggleTaskCompletion\<close>

lemma toggleTaskCompletion_absent:
  "property (tasks s) i = Absent \<Longrightarrow> toggleTaskCompletion now i s = Stored s"
  by (simp add: toggleTaskCompletion_def)

text \<open>
  What \<open>toggleTaskCompletion\<close> does to a task of the mapping: it flips \<open>completed\<close>, sets
  \<open>completedAt\<close> to the current instant when the task was incomplete and to \<open>null\<close> when it
  was completed, and changes nothing else. Applied twice (at any two instants) to a task
  that starts incomplete, it leaves \<open>completed\<close> as it was and \<open>completedAt\<close> \<open>null\<close>,
  whatever \<open>completedAt\<close> was at the start.
\<close>

lemma toggleTaskCompletion_existing:
  assumes "map_of (tasks s) i = Some t"
  shows "\<exists>s'. toggleTaskCompletion now i s = Stored s' \<and>
      map_of (tasks s') i =
        Some (t\<lparr>completed := \<not> completed t,
                completedAt := (if completed t then None else Some (Date now))\<rparr>) \<and>
      (\<forall>k. k \<noteq> i \<longrightarrow> map_of (tasks s') k = map_of (tasks s) k) \<and>
      s'\<lparr>tasks := tasks s\<rparr> = s"
  using assms by (simp add: toggleTaskCompletion_def property_Own update_conv')

lemma toggleTaskCompletion_twice:
  assumes "map_of (tasks s) i = Some t" and "\<not> completed t"
  shows "\<exists>s' s''. toggleTaskCompletion now i s = Stored s' \<and>
      toggleTaskCompletion now' i s' = Stored s'' \<and>
      map_of (tasks s'') i = Some (t\<lparr>completed := completed t, completedAt := None\<rparr>)"
proof -
  from toggleTaskCompletion_existing [OF assms(1), of now] assms(2) obtain s' where
    s': "toggleTaskCompletion now i s = Stored s'"
      "map_of (tasks s') i = Some (t\<lparr>completed := True, completedAt := Some (Date now)\<rparr>)"
    by auto
  from toggleTaskCompletion_existing [OF s'(2), of now'] assms(2) obtain s'' where
    "toggleTaskCompletion now' i s' = Stored s''"
    "map_of (tasks s'') i = Some (t\<lparr>completed := completed t, completedAt := None\<rparr>)"
    by auto
  with s'(1) show ?thesis
    by blast
qed

text \<open>
  Claim C7, at an input where the code leaves it. The claim: \<open>toggleTaskCompletion\<close> is a
  no-op for an absent id. The code: the id \<open>constructor\<close> is absent from the mapping of the
  scenario store, yet the call stores, under that key, an object that is not a task and
  holds \<open>completed\<close> true and \<open>completedAt\<close> the current instant.
\<close>

theorem toggleTaskCompletion_prototype_name:
  "map_of (tasks scenario_state) ''constructor'' = None \<and>
   toggleTaskCompletion 1698321600000 ''constructor'' scenario_state =
     Stored_untyped ''constructor''
       (no_properties\<lparr>upd_completed := Some True,
                      upd_completedAt := Some (Some (Date 1698321600000))\<rparr>)
       scenario_state"
proof (intro conjI)
  show "map_of (tasks scenario_state) ''constructor'' = None"
    by (simp add: scenario_state_def)
  show "toggleTaskCompletion 1698321600000 ''constructor'' scenario_state =
     Stored_untyped ''constructor''
       (no_properties\<lparr>upd_completed := Some True,
                      upd_completedAt := Some (Some (Date 1698321600000))\<rparr>)
       scenario_state"
    by (simp add: toggleTaskCompletion_def property_def Object_prototype_names_def
        scenario_state_def)
qed

text \<open>Toggling C of the scenario store once and twice, and toggling Z, which names nothing.\<close>

lemma toggleTaskCompletion_scenario:
  "toggleTaskCompletion 1698321600000 ''Z'' scenario_state = Stored scenario_state \<and>
   toggleTaskCompletion 1698321600000 ''C'' scenario_state = Stored scenario_state_C_completed \<and>
   toggleTaskCompletion 1698321600001 ''C'' scenario_state_C_completed = Stored scenario_state"
  by (simp add: toggleTaskCompletion_def property_def Object_prototype_names_def
      scenario_state_C_completed_def scenario_state_def test_task_def)

subsection \<open>updateTask\<close>

lemma createdAt_spread_rest: "createdAt (spread t (restOfProperties p)) = createdAt t"
  by (simp add: spread_def restOfProperties_def)

lemma updateTask_absent: "property (tasks s) i = Absent \<Longrightarrow> updateTask i p s = Stored s"
  by (simp add: updateTask_def)

lemma updateTask_inherited:
  "property (tasks s) i = Inherited \<Longrightarrow>
   updateTask i p s = Stored_untyped i (restOfProperties p) s"
  by (simp add: updateTask_def)

lemma updateTask_existing:
  "map_of (tasks s) i = Some t \<Longrightarrow>
   updateTask i p s =
     Stored (s\<lparr>tasks := AList.update i (spread t (restOfProperties p)) (tasks s)\<rparr>)"
  by (simp add: updateTask_def property_Own)

lemma map_fst_update_present:
  "map_of al k \<noteq> None \<Longrightarrow> map fst (AList.update k v al) = map fst al"
  by (induction al) auto

text \<open>
  What \<open>updateTask\<close> does to a task of the mapping: the task under the key is the old one
  with every field the partial supplies replaced by the supplied value, except \<open>createdAt\<close>,
  which keeps its value even when the partial supplies one.
\<close>

lemma updateTask_existing_merge:
  assumes "map_of (tasks s) i = Some t"
  shows "\<exists>s' t'. updateTask i p s = Stored s' \<and> map_of (tasks s') i = Some t' \<and>
      createdAt t' = createdAt t \<and>
      title t' = (case upd_title p of None \<Rightarrow> title t | Some v \<Rightarrow> v) \<and>
      description t' = (case upd_description p of None \<Rightarrow> description t | Some v \<Rightarrow> v) \<and>
      completed t' = (case upd_completed p of None \<Rightarrow> completed t | Some v \<Rightarrow> v) \<and>
      completedAt t' = (case upd_completedAt p of None \<Rightarrow> completedAt t | Some v \<Rightarrow> v) \<and>
      estimatedMinutes t' =
        (case upd_estimatedMinutes p of None \<Rightarrow> estimatedMinutes t | Some v \<Rightarrow> v) \<and>
      tags t' = (case upd_tags p of None \<Rightarrow> tags t | Some v \<Rightarrow> v) \<and>
      priority t' = (case upd_priority p of None \<Rightarrow> priority t | Some v \<Rightarrow> v)"
  unfolding updateTask_existing [OF assms]
  by (simp add: update_conv' spread_def restOfProperties_def)

text \<open>
  Claim C8, at an input where the code leaves it. The claim: when the id is absent from
  the mapping, \<open>updateTask\<close> ignores the update and returns the state unchanged. The code:
  the id \<open>toString\<close> is absent from the mapping of the scenario store, yet the call stores,
  under that key, an object that is not a task and holds the fields of the partial (without
  \<open>createdAt\<close>): it has no \<open>createdAt\<close> at all.
\<close>

theorem updateTask_prototype_name:
  "map_of (tasks scenario_state) ''toString'' = None \<and>
   updateTask ''toString''
     (no_properties\<lparr>upd_title := Some ''renamed'', upd_createdAt := Some (Date 5)\<rparr>)
     scenario_state =
   Stored_untyped ''toString'' (no_properties\<lparr>upd_title := Some ''renamed''\<rparr>) scenario_state"
proof (intro conjI)
  show "map_of (tasks scenario_state) ''toString'' = None"
    by (simp add: scenario_state_def)
  show "updateTask ''toString''
     (no_properties\<lparr>upd_title := Some ''renamed'', upd_createdAt := Some (Date 5)\<rparr>)
     scenario_state =
   Stored_untyped ''toString'' (no_properties\<lparr>upd_title := Some ''renamed''\<rparr>) scenario_state"
    by (simp add: updateTask_def property_def Object_prototype_names_def restOfProperties_def
        no_properties_def scenario_state_def)
qed

text \<open>
  Renaming C of the scenario store with a partial that also carries a \<open>createdAt\<close>: the
  title changes, \<open>createdAt\<close> does not. Renaming Z, which names nothing, changes nothing.
\<close>

lemma updateTask_scenario:
  "updateTask ''Z'' (no_properties\<lparr>upd_title := Some ''renamed''\<rparr>) scenario_state =
     Stored scenario_state \<and>
   updateTask ''C'' (no_properties\<lparr>upd_title := Some ''renamed'', upd_createdAt := Some (Date 5)\<rparr>)
     scenario_state =
     Stored (scenario_state\<lparr>tasks := AList.update ''C''
       ((test_task ''C'' (Some ''A'') [])\<lparr>title := ''renamed''\<rparr>) (tasks scenario_state)\<rparr>)"
  by (simp add: updateTask_def property_def Object_prototype_names_def restOfProperties_def
      spread_def no_properties_def scenario_state_def test_task_def)

subsection \<open>updateTask and the forest invariant\<close>

text \<open>
  Claim C10. Of the fields a partial supplies, \<open>updateTask\<close> drops \<open>createdAt\<close> alone:
  for a task \<open>t\<close> stored under the key \<open>i\<close>, a supplied \<open>id\<close>, \<open>parentId\<close> or \<open>childrenIds\<close>
  is written into the task under the key like any other field; the task stays under the
  key \<open>i\<close>, and the keys of the mapping and their order are as before. For every id (a key
  of the mapping or not), \<open>rootTaskIds\<close>, every task under another key and the rest of the
  store are left as they are, in the state the call stores. So there is a store in which
  \<open>childrenIds\<close> mirror the \<open>parentId\<close> links and an update of a \<open>parentId\<close> after which
  they do not.
\<close>

theorem updateTask_frame:
  "(map_of (tasks s) i = Some t \<longrightarrow>
      (\<exists>s' t'. updateTask i p s = Stored s' \<and> map_of (tasks s') i = Some t' \<and>
         task_id t' = (case upd_id p of None \<Rightarrow> task_id t | Some v \<Rightarrow> v) \<and>
         parentId t' = (case upd_parentId p of None \<Rightarrow> parentId t | Some v \<Rightarrow> v) \<and>
         childrenIds t' = (case upd_childrenIds p of None \<Rightarrow> childrenIds t | Some v \<Rightarrow> v) \<and>
         title t' = (case upd_title p of None \<Rightarrow> title t | Some v \<Rightarrow> v) \<and>
         description t' = (case upd_description p of None \<Rightarrow> description t | Some v \<Rightarrow> v) \<and>
         completed t' = (case upd_completed p of None \<Rightarrow> completed t | Some v \<Rightarrow> v) \<and>
         completedAt t' = (case upd_completedAt p of None \<Rightarrow> completedAt t | Some v \<Rightarrow> v) \<and>
         estimatedMinutes t' =
           (case upd_estimatedMinutes p of None \<Rightarrow> estimatedMinutes t | Some v \<Rightarrow> v) \<and>
         tags t' = (case upd_tags p of None \<Rightarrow> tags t | Some v \<Rightarrow> v) \<and>
         priority t' = (case upd_priority p of None \<Rightarrow> priority t | Some v \<Rightarrow> v) \<and>
         createdAt t' = createdAt t \<and>
         map fst (tasks s') = map fst (tasks s))) \<and>
   (\<exists>s'. (updateTask i p s = Stored s' \<or>
          updateTask i p s = Stored_untyped i (p\<lparr>upd_createdAt := None\<rparr>) s') \<and>
      (\<forall>k. k \<noteq> i \<longrightarrow> map_of (tasks s') k = map_of (tasks s) k) \<and>
      s'\<lparr>tasks := tasks s\<rparr> = s \<and>
      rootTaskIds s' = rootTaskIds s) \<and>
   (\<exists>s0 i0 p0 s1. upd_parentId p0 \<noteq> None \<and> children_mirror_parents (tasks s0) \<and>
       updateTask i0 p0 s0 = Stored s1 \<and> \<not> children_mirror_parents (tasks s1))"
proof (intro conjI impI)
  show "\<exists>s' t'. updateTask i p s = Stored s' \<and> map_of (tasks s') i = Some t' \<and>
         task_id t' = (case upd_id p of None \<Rightarrow> task_id t | Some v \<Rightarrow> v) \<and>
         parentId t' = (case upd_parentId p of None \<Rightarrow> parentId t | Some v \<Rightarrow> v) \<and>
         childrenIds t' = (case upd_childrenIds p of None \<Rightarrow> childrenIds t | Some v \<Rightarrow> v) \<and>
         title t' = (case upd_title p of None \<Rightarrow> title t | Some v \<Rightarrow> v) \<and>
         description t' = (case upd_description p of None \<Rightarrow> description t | Some v \<Rightarrow> v) \<and>
         completed t' = (case upd_completed p of None \<Rightarrow> completed t | Some v \<Rightarrow> v) \<and>
         completedAt t' = (case upd_completedAt p of None \<Rightarrow> completedAt t | Some v \<Rightarrow> v) \<and>
         estimatedMinutes t' =
           (case upd_estimatedMinutes p of None \<Rightarrow> estimatedMinutes t | Some v \<Rightarrow> v) \<and>
         tags t' = (case upd_tags p of None \<Rightarrow> tags t | Some v \<Rightarrow> v) \<and>
         priority t' = (case upd_priority p of None \<Rightarrow> priority t | Some v \<Rightarrow> v) \<and>
         createdAt t' = createdAt t \<and>
         map fst (tasks s') = map fst (tasks s)"
    if t: "map_of (tasks s) i = Some t"
    unfolding updateTask_existing [OF t]
    using t by (simp add: update_conv' spread_def restOfProperties_def map_fst_update_present)
  show "\<exists>s'. (updateTask i p s = Stored s' \<or>
          updateTask i p s = Stored_untyped i (p\<lparr>upd_createdAt := None\<rparr>) s') \<and>
      (\<forall>k. k \<noteq> i \<longrightarrow> map_of (tasks s') k = map_of (tasks s) k) \<and>
      s'\<lparr>tasks := tasks s\<rparr> = s \<and>
      rootTaskIds s' = rootTaskIds s"
  proof (cases "property (tasks s) i")
    case (Own t)
    then have "map_of (tasks s) i = Some t"
      by (simp add: property_Own_iff)
    then show ?thesis
      by (simp add: updateTask_existing update_conv')
  next
    case Inherited
    then show ?thesis
      by (simp add: updateTask_inherited restOfProperties_def)
  next
    case Absent
    then show ?thesis
      by (simp add: updateTask_absent)
  qed
  have "upd_parentId (no_properties\<lparr>upd_parentId := Some (Some ''C'')\<rparr>) \<noteq> None"
    by simp
  moreover have "children_mirror_parents (tasks scenario_state)"
    by (simp add: children_mirror_parents_def scenario_state_def test_task_def)
  moreover have "updateTask ''D'' (no_properties\<lparr>upd_parentId := Some (Some ''C'')\<rparr>) scenario_state =
      Stored (scenario_state\<lparr>tasks := AList.update ''D'' (test_task ''D'' (Some ''C'') [])
        (tasks scenario_state)\<rparr>)"
    by (simp add: updateTask_def property_def scenario_state_def test_task_def
        spread_def restOfProperties_def no_properties_def)
  moreover have "\<not> children_mirror_parents
      (tasks (scenario_state\<lparr>tasks := AList.update ''D'' (test_task ''D'' (Some ''C'') [])
        (tasks scenario_state)\<rparr>))"
    by (simp add: children_mirror_parents_def scenario_state_def test_task_def)
  ultimately show "\<exists>s0 i0 p0 s1. upd_parentId p0 \<noteq> None \<and> children_mirror_parents (tasks s0) \<and>
       updateTask i0 p0 s0 = Stored s1 \<and> \<not> children_mirror_parents (tasks s1)"
    by blast
qed

text \<open>
  Moving D of the scenario store under C by an update of its \<open>parentId\<close>: D now names C,
  and B and C are as before, B still listing D.
\<close>

theorem updateTask_frame_witness:
  "(\<exists>s' t'. updateTask ''D'' (no_properties\<lparr>upd_parentId := Some (Some ''C'')\<rparr>) scenario_state =
        Stored s' \<and>
      map_of (tasks s') ''D'' = Some t' \<and>
      task_id t' = ''D'' \<and> parentId t' = Some ''C'' \<and> childrenIds t' = [] \<and>
      map fst (tasks s') = [''A'', ''B'', ''C'', ''D'']) \<and>
   (\<exists>s'. (updateTask ''D'' (no_properties\<lparr>upd_parentId := Some (Some ''C'')\<rparr>) scenario_state =
          Stored s' \<or>
        updateTask ''D'' (no_properties\<lparr>upd_parentId := Some (Some ''C'')\<rparr>) scenario_state =
          Stored_untyped ''D'' (no_properties\<lparr>upd_parentId := Some (Some ''C'')\<rparr>) s') \<and>
      map_of (tasks s') ''B'' = Some (test_task ''B'' (Some ''A'') [''D'']) \<and>
      map_of (tasks s') ''C'' = Some (test_task ''C'' (Some ''A'') []) \<and>
      rootTaskIds s' = [''A''])"
proof -
  let ?p = "no_properties\<lparr>upd_parentId := Some (Some ''C'')\<rparr>"
  have present: "map_of (tasks scenario_state) ''D'' = Some (test_task ''D'' (Some ''B'') [])"
    by (simp add: scenario_state_def)
  have others: "''B'' \<noteq> ''D''" "''C'' \<noteq> ''D''"
    by simp_all
  have vals: "map_of (tasks scenario_state) ''B'' = Some (test_task ''B'' (Some ''A'') [''D''])"
    "map_of (tasks scenario_state) ''C'' = Some (test_task ''C'' (Some ''A'') [])"
    "rootTaskIds scenario_state = [''A'']"
    "map fst (tasks scenario_state) = [''A'', ''B'', ''C'', ''D'']"
    "?p\<lparr>upd_createdAt := None\<rparr> = ?p"
    by (simp_all add: scenario_state_def no_properties_def)
  note e = updateTask_frame [where s = scenario_state and i = "''D''"
      and t = "test_task ''D'' (Some ''B'') []" and p = ?p, THEN conjunct1, THEN mp, OF present]
  note f = updateTask_frame [where s = scenario_state and i = "''D''"
      and t = "test_task ''D'' (Some ''B'') []" and p = ?p, THEN conjunct2, THEN conjunct1]
  from e obtain s' t' where
    "updateTask ''D'' ?p scenario_state = Stored s'"
    "map_of (tasks s') ''D'' = Some t'"
    "task_id t' = ''D''" "parentId t' = Some ''C''" "childrenIds t' = []"
    "map fst (tasks s') = [''A'', ''B'', ''C'', ''D'']"
    by (auto simp: test_task_def no_properties_def vals(4))
  then have A: "\<exists>s' t'. updateTask ''D'' ?p scenario_state = Stored s' \<and>
      map_of (tasks s') ''D'' = Some t' \<and>
      task_id t' = ''D'' \<and> parentId t' = Some ''C'' \<and> childrenIds t' = [] \<and>
      map fst (tasks s') = [''A'', ''B'', ''C'', ''D'']"
    by (intro exI conjI)
  from f obtain s'' where s'':
    "updateTask ''D'' ?p scenario_state = Stored s'' \<or>
     updateTask ''D'' ?p scenario_state = Stored_untyped ''D'' (?p\<lparr>upd_createdAt := None\<rparr>) s''"
    "\<forall>k. k \<noteq> ''D'' \<longrightarrow> map_of (tasks s'') k = map_of (tasks scenario_state) k"
    "rootTaskIds s'' = rootTaskIds scenario_state"
    by (elim exE conjE)
  from s''(2) [rule_format, OF others(1)] s''(2) [rule_format, OF others(2)] s''(1,3)
  have B: "\<exists>s'. (updateTask ''D'' ?p scenario_state = Stored s' \<or>
        updateTask ''D'' ?p scenario_state = Stored_untyped ''D'' ?p s') \<and>
      map_of (tasks s') ''B'' = Some (test_task ''B'' (Some ''A'') [''D'']) \<and>
      map_of (tasks s') ''C'' = Some (test_task ''C'' (Some ''A'') []) \<and>
      rootTaskIds s' = [''A'']"
    unfolding vals by (intro exI [of _ s''] conjI)
  from A B show ?thesis
    by (rule conjI)
qed

subsection \<open>setActiveColumns\<close>

lemma column_view_record [simp]:
  "column_view \<lparr>column_id = c, taskIds = ids, parentTaskId = p, level = l\<rparr> = (ids, p, l)"
  by (simp add: column_view_def)

lemma hierarchy_loop_view:
  "map column_view (hierarchy_loop Date_now ts h cols lvl calls) =
   map column_view cols @
   map (\<lambda>(k, i). (filter (task_exists ts) (children_of ts i), Some i, k))
     (enumerate lvl (filter (has_children ts) h))"
proof (induction h arbitrary: cols lvl calls)
  case Nil
  show ?case by simp
next
  case (Cons taskId rest)
  show ?case
  proof (cases "map_of ts taskId")
    case None
    then show ?thesis
      by (simp add: Cons.IH has_children_def property_def)
  next
    case (Some task)
    show ?thesis
    proof (cases "childrenIds task = []")
      case True
      with Some show ?thesis
        by (simp add: Cons.IH has_children_def property_def)
    next
      case False
      with Some show ?thesis
        by (simp add: Cons.IH has_children_def children_of_def property_def)
    qed
  qed
qed

text \<open>
  The columns the code stores, without their synthetic ids: the lists are filtered with
  the code's test \<open>task_exists\<close>, which an id that names only an inherited property passes.
\<close>

lemma columns_view_code:
  "map column_view (columns (setActiveColumns Date_now h s)) =
   take 5
     ((filter (task_exists (tasks s)) (rootTaskIds s), None, 0) #
      map (\<lambda>(k, i). (filter (task_exists (tasks s)) (children_of (tasks s) i), Some i, k))
        (enumerate 1 (filter (has_children (tasks s)) h)))"
proof -
  let ?root = "\<lparr>column_id = ''column-root-'' @ String_of_int (Date_now 0),
      taskIds = filter (task_exists (tasks s)) (rootTaskIds s), parentTaskId = None, level = 0\<rparr>"
  have "map column_view (columns (setActiveColumns Date_now h s)) =
      take 5 (map column_view (hierarchy_loop Date_now (tasks s) h [?root] 1 1))"
    by (simp add: setActiveColumns_def Let_def take_map)
  also have "map column_view (hierarchy_loop Date_now (tasks s) h [?root] 1 1) =
      (filter (task_exists (tasks s)) (rootTaskIds s), None, 0) #
      map (\<lambda>(k, i). (filter (task_exists (tasks s)) (children_of (tasks s) i), Some i, k))
        (enumerate 1 (filter (has_children (tasks s)) h))"
    by (simp only: hierarchy_loop_view list.map column_view_record append.simps)
  finally show ?thesis .
qed

lemma task_exists_present:
  "property ts i \<noteq> Inherited \<Longrightarrow> task_exists ts i = task_present ts i"
  by (auto simp: task_exists_def task_present_def property_def split: option.splits if_splits)

text \<open>
  On a store in which no id listed in \<open>rootTaskIds\<close> or in the \<open>childrenIds\<close> of a task
  names only an inherited property, the stored columns are the columns the specification
  describes (\<open>spec_columns\<close>): the existing root tasks at level 0, then one column per id of
  the hierarchy whose task exists and has children, with the existing children, the id as
  \<open>parentTaskId\<close> and the running counter as level, cut to five columns.
\<close>

lemma columns_view:
  assumes roots: "\<forall>i \<in> set (rootTaskIds s). property (tasks s) i \<noteq> Inherited"
    and children: "\<forall>(k, t) \<in> set (tasks s). \<forall>c \<in> set (childrenIds t). property (tasks s) c \<noteq> Inherited"
  shows "map column_view (columns (setActiveColumns Date_now h s)) =
    spec_columns (tasks s) (rootTaskIds s) h"
proof -
  have r: "filter (task_exists (tasks s)) (rootTaskIds s) =
      filter (task_present (tasks s)) (rootTaskIds s)"
    using roots by (intro filter_cong refl) (simp add: task_exists_present)
  have c: "filter (task_exists (tasks s)) (children_of (tasks s) i) =
      filter (task_present (tasks s)) (children_of (tasks s) i)" for i
  proof (cases "map_of (tasks s) i")
    case None
    then show ?thesis
      by (simp add: children_of_def)
  next
    case (Some t)
    then have "(i, t) \<in> set (tasks s)"
      by (rule map_of_SomeD)
    with children have "\<forall>c \<in> set (childrenIds t). property (tasks s) c \<noteq> Inherited"
      by auto
    with Some show ?thesis
      by (intro filter_cong refl) (simp add: children_of_def task_exists_present)
  qed
  show ?thesis
    unfolding columns_view_code spec_columns_def r c ..
qed

text \<open>
  For every store: nothing but the column list changes, and the earlier column list has
  no influence. An empty hierarchy gives one column, at level 0; a hierarchy of N ids gives
  at most min(N + 1, 5) columns, and exactly that many when every id has children.
\<close>

lemma setActiveColumns_frame:
  "(setActiveColumns Date_now h s)\<lparr>columns := columns s\<rparr> = s \<and>
   setActiveColumns Date_now h (s\<lparr>columns := cs\<rparr>) = setActiveColumns Date_now h s"
  by (simp add: setActiveColumns_def Let_def)

lemma setActiveColumns_empty_hierarchy:
  "map column_view (columns (setActiveColumns Date_now [] s)) =
   [(filter (task_exists (tasks s)) (rootTaskIds s), None, 0)]"
  by (simp add: columns_view_code)

lemma setActiveColumns_length:
  "length (columns (setActiveColumns Date_now h s)) =
   min (length (filter (has_children (tasks s)) h) + 1) 5"
  using arg_cong [OF columns_view_code [of Date_now h s], of length]
  by (simp add: min_def)

lemma setActiveColumns_length_le:
  "length (columns (setActiveColumns Date_now h s)) \<le> min (length h + 1) 5"
  unfolding setActiveColumns_length
  using length_filter_le [of "has_children (tasks s)" h] by linarith

lemma setActiveColumns_length_all_children:
  assumes "\<forall>i \<in> set h. has_children (tasks s) i"
  shows "length (columns (setActiveColumns Date_now h s)) = min (length h + 1) 5"
proof -
  from assms have "filter (has_children (tasks s)) h = h"
    by (simp add: filter_id_conv)
  then show ?thesis
    by (simp add: setActiveColumns_length)
qed

lemma constructor_root_state_imported:
  "importState ISO_parse
     (Some \<lparr>data_version = Some 1, data_tasks = JS_object [(''A'', Some exported_A)],
            data_rootTaskIds = JS_array [''A'', ''constructor'', ''Z''],
            data_taskTemplates = JS_object []\<rparr>)
     (initial_state 0) = (True, constructor_root_state)"
  by code_simp

text \<open>
  Claim C4, at an input where the code leaves it. The claim: column 0 holds exactly the
  ids of \<open>rootTaskIds\<close> that name existing tasks. The code: in \<open>constructor_root_state\<close> the
  ids \<open>constructor\<close> and Z both name no task of the mapping; the code drops Z from column 0
  and keeps \<open>constructor\<close>, where the column list of the specification is the column of A
  alone.
\<close>

theorem setActiveColumns_prototype_name:
  "map_of (tasks constructor_root_state) ''constructor'' = None \<and>
   map_of (tasks constructor_root_state) ''Z'' = None \<and>
   map column_view (columns (setActiveColumns (\<lambda>k. 1698321600000) [] constructor_root_state)) =
     [([''A'', ''constructor''], None, 0)] \<and>
   spec_columns (tasks constructor_root_state) (rootTaskIds constructor_root_state) [] =
     [([''A''], None, 0)]"
proof (intro conjI)
  show "map_of (tasks constructor_root_state) ''constructor'' = None"
    by (simp add: constructor_root_state_def)
  show "map_of (tasks constructor_root_state) ''Z'' = None"
    by (simp add: constructor_root_state_def)
  show "map column_view (columns (setActiveColumns (\<lambda>k. 1698321600000) [] constructor_root_state)) =
     [([''A'', ''constructor''], None, 0)]"
    by (simp add: setActiveColumns_def Let_def task_exists_def property_def
        Object_prototype_names_def constructor_root_state_def)
  show "spec_columns (tasks constructor_root_state) (rootTaskIds constructor_root_state) [] =
     [([''A''], None, 0)]"
    by (simp add: spec_columns_def task_present_def constructor_root_state_def)
qed

text \<open>
  The scenario of the specification: with the hierarchy A, B the columns are the root
  column [A], the children of A and the children of B. On the chain store, the hierarchy
  T1, nil, T6, T2, T3, T4, T5 skips the id of no task and the task without children, drops
  \<open>gone\<close> from every list, and is cut after the fifth column: the children of T5 get none.
\<close>

lemma setActiveColumns_scenario:
  "map column_view (columns (setActiveColumns (\<lambda>k. 1698321600000) [''A'', ''B''] scenario_state)) =
     [([''A''], None, 0), ([''B'', ''C''], Some ''A'', 1), ([''D''], Some ''B'', 2)]"
  by (simp add: columns_view_code has_children_def children_of_def task_exists_def property_def
      Object_prototype_names_def scenario_state_def test_task_def)

lemma setActiveColumns_chain:
  "map column_view (columns (setActiveColumns (\<lambda>k. 1698321600000)
     [''T1'', ''nil'', ''T6'', ''T2'', ''T3'', ''T4'', ''T5''] chain_state)) =
     [([''T1''], None, 0), ([''T2''], Some ''T1'', 1), ([''T3''], Some ''T2'', 2),
      ([''T4''], Some ''T3'', 3), ([''T5''], Some ''T4'', 4)] \<and>
   spec_columns (tasks chain_state) (rootTaskIds chain_state)
     [''T1'', ''nil'', ''T6'', ''T2'', ''T3'', ''T4'', ''T5''] =
     [([''T1''], None, 0), ([''T2''], Some ''T1'', 1), ([''T3''], Some ''T2'', 2),
      ([''T4''], Some ''T3'', 3), ([''T5''], Some ''T4'', 4)]"
  by (simp add: columns_view_code spec_columns_def has_children_def children_of_def task_exists_def
      task_present_def property_def Object_prototype_names_def chain_state_def test_task_def)

subsection \<open>getTasksCompletedThisWeekCount\<close>

lemma getDay_range: "0 \<le> getDay LocalTime t \<and> getDay LocalTime t \<le> 6"
  by (simp add: getDay_def)

lemma days_since_monday_formula:
  "0 \<le> d \<Longrightarrow> d \<le> 6 \<Longrightarrow> days_since_monday d = (d + 6) mod 7"
  by (simp add: days_since_monday_def) presburger

lemma weekStart_formula:
  "weekStart LocalTime UTC now =
   setHours_0 LocalTime UTC
     (setDate_back LocalTime UTC now ((getDay LocalTime now + 6) mod 7))"
  using getDay_range [of LocalTime now]
  by (simp add: weekStart_def Let_def days_since_monday_formula)

lemma Day_multiple: "Day (D * msPerDay) = D"
  by (simp add: Day_def msPerDay_def)

lemma monday_arith: "(D - ((D + 4) mod 7 + 6) mod 7 + 4) mod 7 = (1::int)"
  by presburger

lemma monday_midnight_is_monday: "(Day (monday_midnight LocalTime now) + 4) mod 7 = 1"
  unfolding monday_midnight_def Day_multiple getDay_def
  by (rule monday_arith)

lemma monday_midnight_is_midnight: "TimeWithinDay (monday_midnight LocalTime now) = 0"
  by (simp add: monday_midnight_def TimeWithinDay_def)

lemma monday_midnight_le_now: "monday_midnight LocalTime now \<le> LocalTime now"
proof -
  let ?l = "LocalTime now"
  have "(?l div msPerDay) * msPerDay \<le> ?l"
    by (simp add: msPerDay_def)
  moreover have "0 \<le> (getDay LocalTime now + 6) mod 7 * msPerDay"
    by (simp add: msPerDay_def)
  ultimately show ?thesis
    by (simp add: monday_midnight_def Day_def algebra_simps)
qed

lemma now_less_week_after: "LocalTime now < monday_midnight LocalTime now + 7 * msPerDay"
proof -
  let ?l = "LocalTime now"
  have "?l < (?l div msPerDay) * msPerDay + msPerDay"
    using pos_mod_bound [of msPerDay ?l] div_mult_mod_eq [of ?l msPerDay]
    by (simp add: msPerDay_def)
  moreover have "(getDay LocalTime now + 6) mod 7 \<le> 6"
    by presburger
  then have "(getDay LocalTime now + 6) mod 7 * msPerDay \<le> 6 * msPerDay"
    by (simp add: msPerDay_def)
  ultimately show ?thesis
    by (simp add: monday_midnight_def Day_def algebra_simps)
qed

lemma weekStart_monday_midnight:
  assumes "Day (LocalTime (UTC (monday_midnight LocalTime now + TimeWithinDay (LocalTime now)))) =
      Day (monday_midnight LocalTime now)"
  shows "weekStart LocalTime UTC now = UTC (monday_midnight LocalTime now)"
proof -
  let ?k = "(getDay LocalTime now + 6) mod 7"
  have m: "(Day (LocalTime now) - ?k) * msPerDay = monday_midnight LocalTime now"
    by (simp add: monday_midnight_def)
  have "weekStart LocalTime UTC now =
      UTC (Day (LocalTime (UTC (monday_midnight LocalTime now + TimeWithinDay (LocalTime now)))) *
        msPerDay)"
    unfolding weekStart_formula setHours_0_def setDate_back_def Let_def m ..
  also have "\<dots> = UTC (Day (monday_midnight LocalTime now) * msPerDay)"
    unfolding assms ..
  also have "Day (monday_midnight LocalTime now) * msPerDay = monday_midnight LocalTime now"
    unfolding monday_midnight_def Day_multiple ..
  finally show ?thesis .
qed

text \<open>
  A zone with a constant offset has every local time once: the two conditions on the
  platform in the theorem below hold at every instant.
\<close>

lemma fixed_zone_local_times:
  "fixed_LocalTime tz (fixed_UTC tz l) = l"
  by (simp add: fixed_LocalTime_def fixed_UTC_def)

text \<open>
  Claim C9. The offset the code subtracts, \<open>today === 0 ? 6 : today - 1\<close>, is
  \<open>(today + 6) mod 7\<close> for every day of the week, so the week start is \<open>setHours(0,0,0,0)\<close>
  of the date \<open>(dayOfWeek + 6) mod 7\<close> days before today (six days before on a Sunday), and
  the count is the number of tasks that are completed and whose \<open>completedAt\<close> is a date at
  or after the week start. In local time, the midnight that begins the day
  \<open>(dayOfWeek + 6) mod 7\<close> days before today (\<open>monday_midnight\<close>) is a Monday 00:00, not
  after now and less than seven days before it: the most recent Monday 00:00. The week
  start is the instant of that local time, in every time zone, with or without a change of
  the offset during the week, provided the platform has the two local times the code sets:
  the instant it gives for Monday at the present time of day lies on that Monday, and the
  instant it gives for Monday 00:00 has that local time.
\<close>

theorem getTasksCompletedThisWeekCount_since_monday:
  "(\<forall>d. 0 \<le> d \<and> d \<le> 6 \<longrightarrow> days_since_monday d = (d + 6) mod 7) \<and>
   0 \<le> getDay LocalTime now \<and> getDay LocalTime now \<le> 6 \<and>
   weekStart LocalTime UTC now =
     setHours_0 LocalTime UTC
       (setDate_back LocalTime UTC now ((getDay LocalTime now + 6) mod 7)) \<and>
   (getDay LocalTime now = 0 \<longrightarrow>
      weekStart LocalTime UTC now = setHours_0 LocalTime UTC (setDate_back LocalTime UTC now 6)) \<and>
   getTasksCompletedThisWeekCount LocalTime UTC now s =
     length (filter (\<lambda>t. completed t \<and>
         (\<exists>c. completedAt t = Some (Date c) \<and> weekStart LocalTime UTC now \<le> c))
       (map snd (tasks s))) \<and>
   (Day (monday_midnight LocalTime now) + 4) mod 7 = 1 \<and>
   TimeWithinDay (monday_midnight LocalTime now) = 0 \<and>
   monday_midnight LocalTime now \<le> LocalTime now \<and>
   LocalTime now < monday_midnight LocalTime now + 7 * msPerDay \<and>
   (Day (LocalTime (UTC (monday_midnight LocalTime now + TimeWithinDay (LocalTime now)))) =
      Day (monday_midnight LocalTime now) \<and>
    LocalTime (UTC (monday_midnight LocalTime now)) = monday_midnight LocalTime now \<longrightarrow>
      weekStart LocalTime UTC now = UTC (monday_midnight LocalTime now) \<and>
      LocalTime (weekStart LocalTime UTC now) = monday_midnight LocalTime now \<and>
      getDay LocalTime (weekStart LocalTime UTC now) = 1)"
proof (intro conjI impI allI)
  show "days_since_monday d = (d + 6) mod 7" if "0 \<le> d \<and> d \<le> 6" for d
    using that by (simp add: days_since_monday_formula)
  show "0 \<le> getDay LocalTime now" "getDay LocalTime now \<le> 6"
    using getDay_range [of LocalTime now] by simp_all
  show "weekStart LocalTime UTC now =
     setHours_0 LocalTime UTC
       (setDate_back LocalTime UTC now ((getDay LocalTime now + 6) mod 7))"
    by (rule weekStart_formula)
  show "weekStart LocalTime UTC now = setHours_0 LocalTime UTC (setDate_back LocalTime UTC now 6)"
    if "getDay LocalTime now = 0"
    using that by (simp add: weekStart_def days_since_monday_def)
  have "completed_since start =
      (\<lambda>t. completed t \<and> (\<exists>c. completedAt t = Some (Date c) \<and> start \<le> c))" for start
    by (rule ext) (auto simp: completed_since_def split: option.splits Date.splits)
  then show "getTasksCompletedThisWeekCount LocalTime UTC now s =
     length (filter (\<lambda>t. completed t \<and>
         (\<exists>c. completedAt t = Some (Date c) \<and> weekStart LocalTime UTC now \<le> c))
       (map snd (tasks s)))"
    by (simp add: getTasksCompletedThisWeekCount_def)
  show "(Day (monday_midnight LocalTime now) + 4) mod 7 = 1"
    by (rule monday_midnight_is_monday)
  show "TimeWithinDay (monday_midnight LocalTime now) = 0"
    by (rule monday_midnight_is_midnight)
  show "monday_midnight LocalTime now \<le> LocalTime now"
    by (rule monday_midnight_le_now)
  show "LocalTime now < monday_midnight LocalTime now + 7 * msPerDay"
    by (rule now_less_week_after)
next
  assume platform:
    "Day (LocalTime (UTC (monday_midnight LocalTime now + TimeWithinDay (LocalTime now)))) =
      Day (monday_midnight LocalTime now) \<and>
     LocalTime (UTC (monday_midnight LocalTime now)) = monday_midnight LocalTime now"
  show start: "weekStart LocalTime UTC now = UTC (monday_midnight LocalTime now)"
    using platform by (simp add: weekStart_monday_midnight)
  show local: "LocalTime (weekStart LocalTime UTC now) = monday_midnight LocalTime now"
    unfolding start using platform by simp
  show "getDay LocalTime (weekStart LocalTime UTC now) = 1"
    unfolding getDay_def local by (rule monday_midnight_is_monday)
qed

text \<open>
  Sunday 29 October 2023, 15:00 UTC, in Berlin, fourteen hours after the end of daylight
  saving: the offset of days is 6 and the week starts on Monday 23 October, 00:00 local
  time, which is 22 October, 22:00 UTC (the offset was two hours then). Of four tasks, one
  completed half an hour after the week start, one a millisecond before it, one 40 days
  earlier and one that carries a date but is not completed, the first alone is counted.
\<close>

theorem getTasksCompletedThisWeekCount_since_monday_witness:
  "days_since_monday 0 = 6 \<and>
   getDay berlin_LocalTime 1698591600000 = 0 \<and>
   weekStart berlin_LocalTime berlin_UTC 1698591600000 =
     setHours_0 berlin_LocalTime berlin_UTC
       (setDate_back berlin_LocalTime berlin_UTC 1698591600000 6) \<and>
   weekStart berlin_LocalTime berlin_UTC 1698591600000 = 1698012000000 \<and>
   berlin_LocalTime (weekStart berlin_LocalTime berlin_UTC 1698591600000) = 1698019200000 \<and>
   getDay berlin_LocalTime (weekStart berlin_LocalTime berlin_UTC 1698591600000) = 1 \<and>
   getTasksCompletedThisWeekCount berlin_LocalTime berlin_UTC 1698591600000
     (scenario_state\<lparr>tasks :=
        [(''A'', (test_task ''A'' None [])\<lparr>completed := True, completedAt := Some (Date 1698013800000)\<rparr>),
         (''B'', (test_task ''B'' None [])\<lparr>completed := True, completedAt := Some (Date 1698011999999)\<rparr>),
         (''C'', (test_task ''C'' None [])\<lparr>completed := True, completedAt := Some (Date 1695135600000)\<rparr>),
         (''D'', (test_task ''D'' None [])\<lparr>completedAt := Some (Date 1698321600000)\<rparr>)]\<rparr>) = 1"
proof -
  have sunday: "getDay berlin_LocalTime 1698591600000 = 0"
    by (simp add: getDay_def Day_def msPerDay_def berlin_LocalTime_def)
  have range: "(0::int) \<le> 0 \<and> (0::int) \<le> 6"
    by simp
  have monday: "monday_midnight berlin_LocalTime 1698591600000 = 1698019200000"
    by (simp add: monday_midnight_def sunday) (simp add: Day_def msPerDay_def berlin_LocalTime_def)
  have platform:
    "Day (berlin_LocalTime (berlin_UTC (monday_midnight berlin_LocalTime 1698591600000 +
        TimeWithinDay (berlin_LocalTime 1698591600000)))) =
      Day (monday_midnight berlin_LocalTime 1698591600000) \<and>
     berlin_LocalTime (berlin_UTC (monday_midnight berlin_LocalTime 1698591600000)) =
       monday_midnight berlin_LocalTime 1698591600000"
    unfolding monday
    by (simp add: Day_def TimeWithinDay_def msPerDay_def berlin_LocalTime_def berlin_UTC_def)
  note th = getTasksCompletedThisWeekCount_since_monday [where LocalTime = berlin_LocalTime
      and UTC = berlin_UTC and now = 1698591600000]
  note c1 = th [THEN conjunct1, rule_format, OF range]
  note c5 = th [THEN conjunct2, THEN conjunct2, THEN conjunct2, THEN conjunct2, THEN conjunct1,
      THEN mp, OF sunday]
  note c11 = th [THEN conjunct2, THEN conjunct2, THEN conjunct2, THEN conjunct2, THEN conjunct2,
      THEN conjunct2, THEN conjunct2, THEN conjunct2, THEN conjunct2, THEN conjunct2,
      THEN mp, OF platform]
  have utc: "berlin_UTC 1698019200000 = 1698012000000"
    by (simp add: berlin_UTC_def)
  note at_monday = c11 [unfolded monday utc]
  note start = at_monday [THEN conjunct1]
  note local = at_monday [THEN conjunct2, THEN conjunct1]
  note day = at_monday [THEN conjunct2, THEN conjunct2]
  have count: "getTasksCompletedThisWeekCount berlin_LocalTime berlin_UTC 1698591600000
     (scenario_state\<lparr>tasks :=
        [(''A'', (test_task ''A'' None [])\<lparr>completed := True, completedAt := Some (Date 1698013800000)\<rparr>),
         (''B'', (test_task ''B'' None [])\<lparr>completed := True, completedAt := Some (Date 1698011999999)\<rparr>),
         (''C'', (test_task ''C'' None [])\<lparr>completed := True, completedAt := Some (Date 1695135600000)\<rparr>),
         (''D'', (test_task ''D'' None [])\<lparr>completedAt := Some (Date 1698321600000)\<rparr>)]\<rparr>) = 1"
    unfolding getTasksCompletedThisWeekCount_def start
    by (simp add: completed_since_def test_task_def)
  from c1 have offset: "days_since_monday 0 = 6"
    by simp
  from offset sunday c5 start local day count show ?thesis
    by (intro conjI)
qed

text \<open>
  The week is measured in local time: in the last hour of that Sunday in Berlin (22:30 UTC,
  23:30 local time), the week start lies more than seven times 24 hours back.
\<close>

lemma berlin_week_of_169_hours:
  "weekStart berlin_LocalTime berlin_UTC 1698618600000 = 1698012000000 \<and>
   1698012000000 + 7 * msPerDay < 1698618600000"
  by (simp add: weekStart_def setHours_0_def setDate_back_def days_since_monday_def getDay_def
      Day_def TimeWithinDay_def msPerDay_def berlin_LocalTime_def berlin_UTC_def)

subsection \<open>Export and import\<close>

lemma update_fresh: "k \<notin> fst ` set al \<Longrightarrow> AList.update k v al = al @ [(k, v)]"
  by (induction al) auto

lemma foldl_update_distinct:
  "distinct (map fst (acc @ es)) \<Longrightarrow>
   foldl (\<lambda>obj (k, v). AList.update k v obj) acc es = acc @ es"
proof (induction es arbitrary: acc)
  case Nil
  show ?case by simp
next
  case (Cons e es)
  obtain k v where e: "e = (k, v)" by (cases e)
  from Cons.prems e have fresh: "k \<notin> fst ` set acc"
    by auto
  from Cons.prems e have "distinct (map fst ((acc @ [(k, v)]) @ es))"
    by simp
  from Cons.IH [OF this] show ?case
    by (simp add: e update_fresh [OF fresh])
qed

lemma Object_fromEntries_distinct:
  "distinct (map fst es) \<Longrightarrow> Object_fromEntries es = es"
  using foldl_update_distinct [of "[]" es] by (simp add: Object_fromEntries_def)

lemma export_then_rehydrate:
  assumes "task_survives toISOString Date_parse task"
  shows "\<exists>e. export_task toISOString task = Inr e \<and> rehydrate Date_parse e = task"
proof -
  from assms obtain c where c: "createdAt task = Date c" "toISOString c \<noteq> []"
    "Date_parse (toISOString c) = Some c"
    by (auto simp: task_survives_def date_survives_def split: Date.splits)
  show ?thesis
  proof (cases "completedAt task")
    case None
    with c show ?thesis
      by (simp add: export_task_def Date_toISOString_def rehydrate_def new_Date_def)
  next
    case (Some d)
    with assms obtain f where f: "d = Date f" "toISOString f \<noteq> []"
      "Date_parse (toISOString f) = Some f"
      by (auto simp: task_survives_def date_survives_def split: Date.splits)
    with c Some show ?thesis
      by (simp add: export_task_def Date_toISOString_def rehydrate_def new_Date_def)
  qed
qed

lemma rehydrate_task_Some: "rehydrate_task Date_parse (Some e) = Inr (rehydrate Date_parse e)"
  by (simp add: rehydrate_task_def)

lemma map_entries_export:
  assumes "list_all (task_survives toISOString Date_parse) (map snd ts)"
  shows "\<exists>es. map_entries (export_task toISOString) ts = Inr es \<and>
              map fst es = map fst ts \<and>
              map_entries (rehydrate_task Date_parse) (map (\<lambda>(k, e). (k, Some e)) es) = Inr ts"
  using assms
proof (induction ts)
  case Nil
  show ?case by simp
next
  case (Cons kt ts)
  obtain k t where kt: "kt = (k, t)" by (cases kt)
  from Cons.prems kt obtain e where e: "export_task toISOString t = Inr e"
    "rehydrate Date_parse e = t"
    using export_then_rehydrate [of toISOString Date_parse t] by auto
  from Cons obtain es where es: "map_entries (export_task toISOString) ts = Inr es"
    "map fst es = map fst ts"
    "map_entries (rehydrate_task Date_parse) (map (\<lambda>(k, e). (k, Some e)) es) = Inr ts"
    by auto
  show ?case
    by (rule exI [of _ "(k, e) # es"]) (simp add: kt e es rehydrate_task_Some)
qed


lemma map_entries_rehydrate_ok:
  "map_entries (rehydrate_task Date_parse) (map (\<lambda>(k, e). (k, Some e)) es) =
   Inr (map (\<lambda>(k, e). (k, rehydrate Date_parse e)) es)"
  by (induction es) (auto simp: rehydrate_task_Some)

lemma map_entries_rehydrate_null:
  "(k, None) \<in> set es \<Longrightarrow> map_entries (rehydrate_task Date_parse) es = Inl TypeError"
proof (induction es)
  case Nil
  then show ?case by simp
next
  case (Cons a es)
  obtain k' v where a: "a = (k', v)" by (cases a)
  show ?case
  proof (cases v)
    case None
    with a show ?thesis by (simp add: rehydrate_task_def)
  next
    case (Some e)
    with a Cons show ?thesis by (auto simp: rehydrate_task_Some)
  qed
qed

text \<open>
  Claim C3, as amended. \<open>importState\<close> returns false and leaves the store as it is when
  the document is \<open>null\<close> or \<open>undefined\<close>; when \<open>data.tasks\<close> or \<open>data.taskTemplates\<close> is
  absent or a primitive (\<open>typeof\<close> is not \<open>'object'\<close>); when \<open>data.rootTaskIds\<close> is not an
  array; and when the rehydration throws, which it does when \<open>data.tasks\<close> is \<open>null\<close> or has
  a \<open>null\<close> entry. When \<open>data.tasks\<close> is an object or an array (read through its index keys)
  without \<open>null\<close> entries, \<open>data.rootTaskIds\<close> is an array and \<open>data.taskTemplates\<close> is an
  object or an array, it returns true and the store holds the rehydrated tasks, the given
  \<open>rootTaskIds\<close> and \<open>taskTemplates\<close>, no selection, no task being edited and no columns.
\<close>

theorem importState_outcome:
  "(data = None \<longrightarrow> importState Date_parse data s = (False, s)) \<and>
   (data = Some d \<and> (data_tasks d = JS_undefined \<or> data_tasks d = JS_primitive) \<longrightarrow>
      importState Date_parse data s = (False, s)) \<and>
   (data = Some d \<and> (\<forall>xs. data_rootTaskIds d \<noteq> JS_array xs) \<longrightarrow>
      importState Date_parse data s = (False, s)) \<and>
   (data = Some d \<and> (data_taskTemplates d = JS_undefined \<or> data_taskTemplates d = JS_primitive) \<longrightarrow>
      importState Date_parse data s = (False, s)) \<and>
   (data = Some d \<and> data_tasks d = JS_null \<longrightarrow>
      importState Date_parse data s = (False, s)) \<and>
   (data = Some d \<and> Object_entries (data_tasks d) = Inr entries \<and> (k, None) \<in> set entries \<longrightarrow>
      importState Date_parse data s = (False, s)) \<and>
   (data = Some d \<and>
    (data_tasks d = JS_object (map (\<lambda>(k, e). (k, Some e)) es) \<or>
     data_tasks d = JS_array (map Some (map snd es)) \<and>
       map fst es = map String_of_nat [0..<length es]) \<and>
    data_rootTaskIds d = JS_array roots \<and>
    (data_taskTemplates d = JS_object templates \<or>
     data_taskTemplates d = JS_array (map snd templates) \<and>
       map fst templates = map String_of_nat [0..<length templates]) \<longrightarrow>
      importState Date_parse data s =
        (True,
         s\<lparr>tasks := Object_fromEntries (map (\<lambda>(k, e). (k, rehydrate Date_parse e)) es),
           rootTaskIds := roots,
           taskTemplates := Some templates,
           selectedTaskId := None,
           editingTaskId := None,
           columns := []\<rparr>))"
proof (intro conjI impI)
  show "importState Date_parse data s = (False, s)" if "data = None"
    using that by (simp add: importState_def)
  show "importState Date_parse data s = (False, s)"
    if "data = Some d \<and> (data_tasks d = JS_undefined \<or> data_tasks d = JS_primitive)"
    using that by (auto simp: importState_def typeof_object_def)
  show "importState Date_parse data s = (False, s)"
    if "data = Some d \<and> (\<forall>xs. data_rootTaskIds d \<noteq> JS_array xs)"
    using that by (cases "data_rootTaskIds d") (auto simp: importState_def Array_isArray_def)
  show "importState Date_parse data s = (False, s)"
    if "data = Some d \<and> (data_taskTemplates d = JS_undefined \<or> data_taskTemplates d = JS_primitive)"
    using that by (auto simp: importState_def typeof_object_def)
  show "importState Date_parse data s = (False, s)"
    if "data = Some d \<and> data_tasks d = JS_null"
    using that by (auto simp: importState_def Object_entries_def)
  show "importState Date_parse data s = (False, s)"
    if "data = Some d \<and> Object_entries (data_tasks d) = Inr entries \<and> (k, None) \<in> set entries"
    using that map_entries_rehydrate_null [of k entries Date_parse]
    by (auto simp: importState_def)
next
  assume a: "data = Some d \<and>
    (data_tasks d = JS_object (map (\<lambda>(k, e). (k, Some e)) es) \<or>
     data_tasks d = JS_array (map Some (map snd es)) \<and>
       map fst es = map String_of_nat [0..<length es]) \<and>
    data_rootTaskIds d = JS_array roots \<and>
    (data_taskTemplates d = JS_object templates \<or>
     data_taskTemplates d = JS_array (map snd templates) \<and>
       map fst templates = map String_of_nat [0..<length templates])"
  have zip_fst_snd: "zip (map fst xs) (map snd xs) = xs" for xs :: "(string \<times> 'b) list"
    by (induction xs) auto
  from a have tasks_shape:
    "data_tasks d = JS_object (map (\<lambda>(k, e). (k, Some e)) es) \<or>
     data_tasks d = JS_array (map Some (map snd es)) \<and>
       map fst es = map String_of_nat [0..<length es]"
    by simp
  from a have templates_shape:
    "data_taskTemplates d = JS_object templates \<or>
     data_taskTemplates d = JS_array (map snd templates) \<and>
       map fst templates = map String_of_nat [0..<length templates]"
    by simp
  from tasks_shape have entries:
    "Object_entries (data_tasks d) = Inr (map (\<lambda>(k, e). (k, Some e)) es)"
  proof (elim conjE disjE)
    assume "data_tasks d = JS_object (map (\<lambda>(k, e). (k, Some e)) es)"
    then show ?thesis by (simp add: Object_entries_def)
  next
    assume arr: "data_tasks d = JS_array (map Some (map snd es))"
      and keys: "map fst es = map String_of_nat [0..<length es]"
    have "zip (map fst es) (map Some (map snd es)) = map (\<lambda>(k, e). (k, Some e)) es"
      by (induction es) auto
    with arr keys show ?thesis
      by (simp add: Object_entries_def array_entries_def)
  qed
  from tasks_shape have tasks_obj: "typeof_object (data_tasks d)"
    by (auto simp: typeof_object_def)
  from templates_shape have templates_obj: "typeof_object (data_taskTemplates d)"
    by (auto simp: typeof_object_def)
  from templates_shape have rec: "as_record (data_taskTemplates d) = Some templates"
  proof (elim conjE disjE)
    assume "data_taskTemplates d = JS_object templates"
    then show ?thesis by (simp add: as_record_def)
  next
    assume arr: "data_taskTemplates d = JS_array (map snd templates)"
      and keys: "map fst templates = map String_of_nat [0..<length templates]"
    from zip_fst_snd [of templates] keys
    have "zip (map String_of_nat [0..<length templates]) (map snd templates) = templates"
      by simp
    with arr show ?thesis
      by (simp add: as_record_def array_entries_def)
  qed
  from a entries tasks_obj templates_obj rec
  show "importState Date_parse data s =
        (True,
         s\<lparr>tasks := Object_fromEntries (map (\<lambda>(k, e). (k, rehydrate Date_parse e)) es),
           rootTaskIds := roots,
           taskTemplates := Some templates,
           selectedTaskId := None,
           editingTaskId := None,
           columns := []\<rparr>)"
    by (simp add: importState_def Array_isArray_def array_elements_def map_entries_rehydrate_ok)
qed

text \<open>
  The claim as stated fails when \<open>data.tasks\<close> is an array, which is not a mapping but has
  the \<open>typeof\<close> \<open>'object'\<close>: \<open>importState\<close> returns true and replaces the store.
\<close>

theorem importState_array_counterexample:
  "importState ISO_parse
     (Some \<lparr>data_version = Some 1, data_tasks = JS_array [], data_rootTaskIds = JS_array [],
            data_taskTemplates = JS_object []\<rparr>)
     scenario_state =
   (True,
    \<lparr>tasks = [], columns = [], rootTaskIds = [], selectedTaskId = None, editingTaskId = None,
     taskTemplates = Some []\<rparr>)"
  by (simp add: importState_def typeof_object_def Array_isArray_def Object_entries_def
      array_entries_def Object_fromEntries_def array_elements_def as_record_def scenario_state_def)

text \<open>
  The amended claim on eight documents: no document, the document \<open>{tasks: {}}\<close> of the
  specification's scenario, primitive fields, \<open>null\<close> tasks, a \<open>null\<close> entry, the empty
  document, and a document with one task.
\<close>

theorem importState_outcome_witness:
  "importState ISO_parse None scenario_state = (False, scenario_state) \<and>
   importState ISO_parse
     (Some \<lparr>data_version = None, data_tasks = JS_object [], data_rootTaskIds = JS_undefined,
            data_taskTemplates = JS_undefined\<rparr>)
     scenario_state = (False, scenario_state) \<and>
   importState ISO_parse
     (Some \<lparr>data_version = Some 1, data_tasks = JS_primitive, data_rootTaskIds = JS_array [],
            data_taskTemplates = JS_object []\<rparr>)
     scenario_state = (False, scenario_state) \<and>
   importState ISO_parse
     (Some \<lparr>data_version = Some 1, data_tasks = JS_object [], data_rootTaskIds = JS_array [],
            data_taskTemplates = JS_primitive\<rparr>)
     scenario_state = (False, scenario_state) \<and>
   importState ISO_parse
     (Some \<lparr>data_version = Some 1, data_tasks = JS_null, data_rootTaskIds = JS_array [],
            data_taskTemplates = JS_object []\<rparr>)
     scenario_state = (False, scenario_state) \<and>
   importState ISO_parse
     (Some \<lparr>data_version = Some 1, data_tasks = JS_object [(''A'', Some exported_A), (''B'', None)],
            data_rootTaskIds = JS_array [''A''], data_taskTemplates = JS_object []\<rparr>)
     scenario_state = (False, scenario_state) \<and>
   importState ISO_parse
     (Some \<lparr>data_version = Some 1, data_tasks = JS_object [], data_rootTaskIds = JS_array [],
            data_taskTemplates = JS_object []\<rparr>)
     scenario_state =
     (True,
      \<lparr>tasks = [], columns = [], rootTaskIds = [], selectedTaskId = None, editingTaskId = None,
       taskTemplates = Some []\<rparr>) \<and>
   importState ISO_parse
     (Some \<lparr>data_version = Some 1, data_tasks = JS_object [(''A'', Some exported_A)],
            data_rootTaskIds = JS_array [''A''], data_taskTemplates = JS_object []\<rparr>)
     scenario_state =
     (True,
      \<lparr>tasks = [(''A'', (test_task ''A'' None [])\<lparr>completed := True,
                       completedAt := Some (Date 1698321600000)\<rparr>)],
       columns = [], rootTaskIds = [''A''], selectedTaskId = None, editingTaskId = None,
       taskTemplates = Some []\<rparr>)"
proof -
  let ?missing = "\<lparr>data_version = None, data_tasks = JS_object [], data_rootTaskIds = JS_undefined,
            data_taskTemplates = JS_undefined :: TaskTemplate js_field\<rparr>"
  let ?prim_tasks = "\<lparr>data_version = Some 1, data_tasks = JS_primitive, data_rootTaskIds = JS_array [],
            data_taskTemplates = JS_object [] :: TaskTemplate js_field\<rparr>"
  let ?prim_templates = "\<lparr>data_version = Some 1, data_tasks = JS_object [], data_rootTaskIds = JS_array [],
            data_taskTemplates = JS_primitive :: TaskTemplate js_field\<rparr>"
  let ?null_tasks = "\<lparr>data_version = Some 1, data_tasks = JS_null, data_rootTaskIds = JS_array [],
            data_taskTemplates = JS_object [] :: TaskTemplate js_field\<rparr>"
  let ?null_entry = "\<lparr>data_version = Some 1, data_tasks = JS_object [(''A'', Some exported_A), (''B'', None)],
            data_rootTaskIds = JS_array [''A''], data_taskTemplates = JS_object [] :: TaskTemplate js_field\<rparr>"
  let ?empty = "\<lparr>data_version = Some 1, data_tasks = JS_object [], data_rootTaskIds = JS_array [],
            data_taskTemplates = JS_object [] :: TaskTemplate js_field\<rparr>"
  let ?one = "\<lparr>data_version = Some 1, data_tasks = JS_object [(''A'', Some exported_A)],
            data_rootTaskIds = JS_array [''A''], data_taskTemplates = JS_object [] :: TaskTemplate js_field\<rparr>"
  have 1: "importState ISO_parse None scenario_state = (False, scenario_state)"
    using importState_outcome [where Date_parse = ISO_parse and s = scenario_state and data = None, THEN conjunct1] by simp
  have 2: "importState ISO_parse (Some ?missing) scenario_state = (False, scenario_state)"
    using importState_outcome [where Date_parse = ISO_parse and s = scenario_state and data = "Some ?missing" and d = ?missing, THEN conjunct2, THEN conjunct2,
        THEN conjunct1]
    by simp
  have 3: "importState ISO_parse (Some ?prim_tasks) scenario_state = (False, scenario_state)"
    using importState_outcome [where Date_parse = ISO_parse and s = scenario_state and data = "Some ?prim_tasks" and d = ?prim_tasks, THEN conjunct2, THEN conjunct1]
    by simp
  have 4: "importState ISO_parse (Some ?prim_templates) scenario_state = (False, scenario_state)"
    using importState_outcome [where Date_parse = ISO_parse and s = scenario_state and data = "Some ?prim_templates" and d = ?prim_templates, THEN conjunct2,
        THEN conjunct2, THEN conjunct2, THEN conjunct1]
    by simp
  have 5: "importState ISO_parse (Some ?null_tasks) scenario_state = (False, scenario_state)"
    using importState_outcome [where Date_parse = ISO_parse and s = scenario_state and data = "Some ?null_tasks" and d = ?null_tasks, THEN conjunct2,
        THEN conjunct2, THEN conjunct2, THEN conjunct2, THEN conjunct1]
    by simp
  have 6: "importState ISO_parse (Some ?null_entry) scenario_state = (False, scenario_state)"
    using importState_outcome [where Date_parse = ISO_parse and s = scenario_state and data = "Some ?null_entry" and d = ?null_entry and k = "''B''"
        and entries = "[(''A'', Some exported_A), (''B'', None)]", THEN conjunct2,
        THEN conjunct2, THEN conjunct2, THEN conjunct2, THEN conjunct2, THEN conjunct1]
    by (simp add: Object_entries_def)
  have 7: "importState ISO_parse (Some ?empty) scenario_state =
     (True,
      \<lparr>tasks = [], columns = [], rootTaskIds = [], selectedTaskId = None, editingTaskId = None,
       taskTemplates = Some []\<rparr>)"
    using importState_outcome [where Date_parse = ISO_parse and s = scenario_state
        and data = "Some ?empty" and d = ?empty and es = "[]" and roots = "[]"
        and templates = "[]", THEN conjunct2, THEN conjunct2, THEN conjunct2, THEN conjunct2,
        THEN conjunct2, THEN conjunct2]
    by (simp add: Object_fromEntries_def scenario_state_def)
  have r: "rehydrate ISO_parse exported_A =
      (test_task ''A'' None [])\<lparr>completed := True, completedAt := Some (Date 1698321600000)\<rparr>"
    by code_simp
  have 8: "importState ISO_parse (Some ?one) scenario_state =
     (True,
      \<lparr>tasks = [(''A'', (test_task ''A'' None [])\<lparr>completed := True,
                       completedAt := Some (Date 1698321600000)\<rparr>)],
       columns = [], rootTaskIds = [''A''], selectedTaskId = None, editingTaskId = None,
       taskTemplates = Some []\<rparr>)"
    using importState_outcome [where Date_parse = ISO_parse and s = scenario_state
        and data = "Some ?one" and d = ?one and es = "[(''A'', exported_A)]"
        and roots = "[''A'']" and templates = "[]", THEN conjunct2, THEN conjunct2,
        THEN conjunct2, THEN conjunct2, THEN conjunct2, THEN conjunct2]
    by (simp add: Object_fromEntries_def scenario_state_def r)
  from 1 2 3 4 5 6 7 8 show ?thesis
    by (intro conjI)
qed

text \<open>
  Claim C2. Let S be a store whose task mapping has each key once and whose timestamps
  survive the platform's printing and parsing (\<open>task_survives\<close>: each date is valid and is
  parsed back from its ISO text to the same time value, in milliseconds). Then the export
  succeeds with a document of the current version, and \<open>importState\<close> of that document,
  into any store, returns true and yields a store with the same \<open>tasks\<close>, \<open>rootTaskIds\<close>
  and \<open>taskTemplates\<close> as S.
\<close>

theorem export_import_roundtrip:
  assumes "distinct (map fst (tasks S))"
    and "list_all (task_survives toISOString Date_parse) (map snd (tasks S))"
  shows "\<exists>doc S'. handleExport toISOString S = Inr doc \<and>
           data_version doc = Some CURRENT_DATA_VERSION \<and>
           importState Date_parse (Some doc) S0 = (True, S') \<and>
           tasks S' = tasks S \<and> rootTaskIds S' = rootTaskIds S \<and>
           taskTemplates S' = taskTemplates S"
proof -
  from map_entries_export [OF assms(2)] obtain es where
    es: "map_entries (export_task toISOString) (tasks S) = Inr es"
      "map fst es = map fst (tasks S)"
      "map_entries (rehydrate_task Date_parse) (map (\<lambda>(k, e). (k, Some e)) es) = Inr (tasks S)"
    by blast
  from es(2) assms(1) have "distinct (map fst es)"
    by simp
  then have from_es: "Object_fromEntries es = es"
    by (rule Object_fromEntries_distinct)
  have from_ts: "Object_fromEntries (tasks S) = tasks S"
    using assms(1) by (rule Object_fromEntries_distinct)
  let ?templates = "case taskTemplates S of None \<Rightarrow> JS_null | Some m \<Rightarrow> JS_object m"
  let ?doc = "\<lparr>data_version = Some CURRENT_DATA_VERSION,
      data_tasks = JS_object (map (\<lambda>(k, t). (k, Some t)) es),
      data_rootTaskIds = JS_array (rootTaskIds S),
      data_taskTemplates = ?templates\<rparr>"
  have export: "handleExport toISOString S = Inr ?doc"
    by (simp add: handleExport_def es(1) from_es)
  have obj: "typeof_object ?templates"
    by (simp add: typeof_object_def split: option.splits)
  have rec: "as_record ?templates = taskTemplates S"
    by (simp add: as_record_def split: option.splits)
  let ?S' = "S0\<lparr>tasks := tasks S, rootTaskIds := rootTaskIds S, taskTemplates := taskTemplates S,
      selectedTaskId := None, editingTaskId := None, columns := []\<rparr>"
  have tasks_obj: "typeof_object (JS_object (map (\<lambda>(k, t). (k, Some t)) es))"
    by (simp add: typeof_object_def)
  have "importState Date_parse (Some ?doc) S0 = (True, ?S')"
    by (simp add: importState_def tasks_obj obj rec Array_isArray_def Object_entries_def
        es(3) from_ts array_elements_def)
  with export show ?thesis
    by (intro exI [of _ ?doc] exI [of _ ?S']) simp
qed

text \<open>
  The scenario store after C was completed on 26 October 2023 at 12:00 UTC, exported with
  the ISO instance and imported into the initial store.
\<close>

theorem export_import_roundtrip_witness:
  "\<exists>doc S'. handleExport ISO_toISOString scenario_state_C_completed = Inr doc \<and>
     data_version doc = Some CURRENT_DATA_VERSION \<and>
     importState ISO_parse (Some doc) (initial_state 0) = (True, S') \<and>
     tasks S' = tasks scenario_state_C_completed \<and>
     rootTaskIds S' = rootTaskIds scenario_state_C_completed \<and>
     taskTemplates S' = taskTemplates scenario_state_C_completed"
proof -
  have keys: "distinct (map fst (tasks scenario_state_C_completed))"
    by (simp add: scenario_state_C_completed_def scenario_state_def)
  have dates: "list_all (task_survives ISO_toISOString ISO_parse)
      (map snd (tasks scenario_state_C_completed))"
    by code_simp
  show ?thesis
    by (rule export_import_roundtrip [OF keys dates])
qed

subsection \<open>applyTemplate\<close>

lemma fold_skip: "fold (\<lambda>taskDef run. run) defs run0 = run0"
  by (induction defs) simp_all

lemma applyTemplate_no_template:
  "taskTemplates s = Some templates \<Longrightarrow> property templates templateId = Absent \<Longrightarrow>
   applyTemplate uuidv4 Date_new templateId parent start s = Inr ([], s)"
  by (simp add: applyTemplate_def)

lemma applyTemplate_inherited_template:
  "taskTemplates s = Some templates \<Longrightarrow> property templates templateId = Inherited \<Longrightarrow>
   applyTemplate uuidv4 Date_new templateId parent start s = Inl TypeError"
  by (simp add: applyTemplate_def)

lemma applyTemplate_generates_nothing:
  assumes "applyTemplate uuidv4 Date_new templateId parent start s = Inr (ids, s')"
  shows "ids = []"
  using assms
  by (auto simp: applyTemplate_def Let_def fold_skip link_children_def
      split: option.splits property.splits sum.splits)

lemma top_level_tasks_ids:
  assumes "truthy parent = None"
  shows "\<exists>s'. top_level_tasks uuidv4 Date_new parent defs ids s =
    Stored (ids @ map uuidv4 [length ids..<length ids + length defs], s')"
proof (induction defs arbitrary: ids s)
  case Nil
  show ?case by simp
next
  case (Cons taskDef defs)
  let ?newTask = "\<lparr>task_id = uuidv4 (length ids), title = def_title taskDef,
      description = def_description taskDef, completed = False, parentId = parent,
      childrenIds = [], createdAt = Date (Date_new (length ids)), completedAt = None,
      estimatedMinutes = def_estimatedMinutes taskDef,
      tags = (case def_tags taskDef of None \<Rightarrow> [] | Some ts \<Rightarrow> ts),
      priority = (case def_priority taskDef of None \<Rightarrow> medium | Some p \<Rightarrow> p)\<rparr>"
  from assms obtain s1 where s1: "addTask ?newTask s = Stored s1"
    by (simp add: addTask_root)
  from Cons.IH [of "ids @ [uuidv4 (length ids)]" s1] obtain s' where
    s': "top_level_tasks uuidv4 Date_new parent defs (ids @ [uuidv4 (length ids)]) s1 =
      Stored ((ids @ [uuidv4 (length ids)]) @
        map uuidv4 [length (ids @ [uuidv4 (length ids)])..<
          length (ids @ [uuidv4 (length ids)]) + length defs], s')"
    by blast
  have "[length ids..<length ids + length (taskDef # defs)] =
      length ids # [Suc (length ids)..<length ids + length (taskDef # defs)]"
    by (rule upt_conv_Cons) simp
  then have upt: "[length ids..<length ids + length (taskDef # defs)] =
      length ids # [Suc (length ids)..<Suc (length ids) + length defs]"
    by simp
  have "top_level_tasks uuidv4 Date_new parent (taskDef # defs) ids s =
      top_level_tasks uuidv4 Date_new parent defs (ids @ [uuidv4 (length ids)]) s1"
    by (simp add: Let_def s1)
  also have "\<dots> = Stored (ids @ map uuidv4 [length ids..<length ids + length (taskDef # defs)], s')"
    unfolding s' upt by simp
  finally show ?case
    by blast
qed

lemma applyTemplate_earlier_ids:
  assumes "taskTemplates s = Some templates" and "map_of templates templateId = Some template"
    and "truthy parent = None"
  shows "\<exists>s'. applyTemplate_earlier uuidv4 Date_new templateId parent start s =
           Stored (map uuidv4 [0..<length (template_tasks template)], s')"
  using top_level_tasks_ids [OF assms(3), of uuidv4 Date_new "template_tasks template" "[]" s]
    assms(1,2)
  by (simp add: applyTemplate_earlier_def property_Own)

text \<open>
  Claim C1 on the code: applying the template \<open>template-morning\<close> of the initial store,
  which has four top-level definitions, at the top level. \<open>applyTemplate\<close> returns the
  empty sequence and the store is the one before the call: no id is generated and no task
  is inserted.
\<close>

theorem applyTemplate_morning_generates_nothing:
  "map_option (\<lambda>t. length (template_tasks t))
     (map_of [(''template-morning'', template_morning),
              (''template-project-kickoff'', template_project_kickoff)] ''template-morning'') = Some 4 \<and>
   applyTemplate uuidv4 Date_new ''template-morning'' None start (initial_state loaded) =
     Inr ([], initial_state loaded)"
  by (simp add: applyTemplate_def Let_def fold_skip link_children_def commit_template_def
      spread_objects_def truthy_def initial_state_def template_morning_def property_def)

text \<open>
  The earlier revision on the same input returns four ids and registers them as root
  tasks.
\<close>

lemma applyTemplate_earlier_morning:
  "\<exists>s'. applyTemplate_earlier (\<lambda>k. ''uuid-'' @ String_of_nat k) Date_new ''template-morning'' None start
     (initial_state loaded) = Stored ([''uuid-0'', ''uuid-1'', ''uuid-2'', ''uuid-3''], s') \<and>
     rootTaskIds s' = [''task-1'', ''task-5'', ''uuid-0'', ''uuid-1'', ''uuid-2'', ''uuid-3'']"
  by (simp add: applyTemplate_earlier_def property_def initial_state_def template_morning_def
     addTask_def truthy_def String_of_nat_def decimal.simps digit_char_def Let_def)

end
